theory Spec2Isabelle
  imports Main
begin

section \<open>JavaScript values as the handlers see them\<close>

text \<open>
  The request arguments, the upstream results and the response payloads are JSON values.
  A value that may be \<^verbatim>\<open>undefined\<close> is a \<open>json option\<close>, with \<open>None\<close> for
  \<^verbatim>\<open>undefined\<close>. \<open>JNum\<close> carries the integer-valued numbers in the range where
  JavaScript prints them in plain decimal; fractions, \<^verbatim>\<open>NaN\<close> and the infinities are not
  represented.
\<close>

datatype json =
    JNull
  | JBool bool
  | JNum int
  | JStr string
  | JArr "json list"
  | JObj "(string \<times> json) list"

text \<open>The conversion to boolean that \<^verbatim>\<open>!x\<close> and \<^verbatim>\<open>if (x)\<close> apply.\<close>

fun truthy :: "json option \<Rightarrow> bool" where
  "truthy None = False"
| "truthy (Some JNull) = False"
| "truthy (Some (JBool b)) = b"
| "truthy (Some (JNum n)) = (n \<noteq> 0)"
| "truthy (Some (JStr s)) = (s \<noteq> [])"
| "truthy (Some (JArr xs)) = True"
| "truthy (Some (JObj kvs)) = True"

text \<open>
  Property read \<^verbatim>\<open>v.k\<close> on a value that is neither \<^verbatim>\<open>undefined\<close> nor \<^verbatim>\<open>null\<close>,
  for the property names the handlers read (none of them is inherited from a prototype):
  an object gives its member, anything else gives \<^verbatim>\<open>undefined\<close>.
\<close>

fun get_prop :: "json \<Rightarrow> string \<Rightarrow> json option" where
  "get_prop (JObj kvs) k = map_of kvs k"
| "get_prop v k = None"

text \<open>Optional chaining \<^verbatim>\<open>v?.k\<close>.\<close>

fun opt_prop :: "json option \<Rightarrow> string \<Rightarrow> json option" where
  "opt_prop None k = None"
| "opt_prop (Some JNull) k = None"
| "opt_prop (Some v) k = get_prop v k"

text \<open>
  A thrown value: an instance of \<^verbatim>\<open>Error\<close> with its \<^verbatim>\<open>name\<close> and \<^verbatim>\<open>message\<close>, or
  any other value, kept as the text \<^verbatim>\<open>String(error)\<close> gives for it.
\<close>

datatype js_error =
    JsError string string
  | NonError string

text \<open>\<^verbatim>\<open>error instanceof Error ? error.message : String(error)\<close>\<close>

fun error_message :: "js_error \<Rightarrow> string" where
  "error_message (JsError nm msg) = msg"
| "error_message (NonError s) = s"

text \<open>\<^verbatim>\<open>String(error)\<close>, as a template literal applies it: \<^verbatim>\<open>Error.prototype.toString\<close>.\<close>

fun error_toString :: "js_error \<Rightarrow> string" where
  "error_toString (JsError nm msg) =
     (if msg = [] then nm else if nm = [] then msg else nm @ '': '' @ msg)"
| "error_toString (NonError s) = s"

text \<open>Strict property read \<^verbatim>\<open>v.k\<close>: a \<^verbatim>\<open>TypeError\<close> on \<^verbatim>\<open>undefined\<close> and \<^verbatim>\<open>null\<close>.\<close>

definition cannot_read :: "string \<Rightarrow> string \<Rightarrow> js_error" where
  "cannot_read what k =
     JsError ''TypeError''
       (''Cannot read properties of '' @ what @ '' (reading '' @ [CHR 0x27] @ k @ [CHR 0x27] @ '')'')"

fun strict_prop :: "json option \<Rightarrow> string \<Rightarrow> js_error + json option" where
  "strict_prop None k = Inl (cannot_read ''undefined'' k)"
| "strict_prop (Some JNull) k = Inl (cannot_read ''null'' k)"
| "strict_prop (Some v) k = Inr (get_prop v k)"

subsection \<open>Decimal numerals\<close>

definition digit :: "nat \<Rightarrow> char" where
  "digit n = ''0123456789abcdef'' ! (n mod 16)"

function show_nat :: "nat \<Rightarrow> string" where
  "show_nat n = (if n < 10 then [digit n] else show_nat (n div 10) @ [digit (n mod 10)])"
  by pat_completeness auto
termination
  by (relation "measure id") auto

definition show_int :: "int \<Rightarrow> string" where
  "show_int i = (if i < 0 then CHR ''-'' # show_nat (nat (- i)) else show_nat (nat i))"

subsection \<open>\<^verbatim>\<open>String(v)\<close> and \<^verbatim>\<open>JSON.stringify(v)\<close>\<close>

fun intercalate :: "string \<Rightarrow> string list \<Rightarrow> string" where
  "intercalate sep [] = []"
| "intercalate sep [x] = x"
| "intercalate sep (x # y # ys) = x @ sep @ intercalate sep (y # ys)"

text \<open>
  \<^verbatim>\<open>String(v)\<close>, which a template literal applies to a value: an array joins its elements
  with commas, \<^verbatim>\<open>null\<close> elements giving the empty string; an object is
  \<^verbatim>\<open>[object Object]\<close>.
\<close>

fun js_String :: "json \<Rightarrow> string"
  and join_elems :: "json list \<Rightarrow> string list" where
  "js_String JNull = ''null''"
| "js_String (JBool b) = (if b then ''true'' else ''false'')"
| "js_String (JNum n) = show_int n"
| "js_String (JStr s) = s"
| "js_String (JArr xs) = intercalate '','' (join_elems xs)"
| "js_String (JObj kvs) = ''[object Object]''"
| "join_elems [] = []"
| "join_elems (x # xs) = (if x = JNull then [] else js_String x) # join_elems xs"

text \<open>
  The quoting of a string by \<^verbatim>\<open>JSON.stringify\<close>: the double quote and the backslash are
  escaped, the control characters below 0x20 are written with their short escape or as
  \<^verbatim>\<open>\u00XX\<close>.
\<close>

definition quote_char :: "char \<Rightarrow> string" where
  "quote_char c =
     (if c = CHR 0x22 then [CHR 0x5C, CHR 0x22]
      else if c = CHR 0x5C then [CHR 0x5C, CHR 0x5C]
      else if c = CHR 0x08 then [CHR 0x5C, CHR ''b'']
      else if c = CHR 0x0C then [CHR 0x5C, CHR ''f'']
      else if c = CHR 0x0A then [CHR 0x5C, CHR ''n'']
      else if c = CHR 0x0D then [CHR 0x5C, CHR ''r'']
      else if c = CHR 0x09 then [CHR 0x5C, CHR ''t'']
      else if (of_char c :: nat) < 32
        then [CHR 0x5C, CHR ''u'', CHR ''0'', CHR ''0'',
              digit ((of_char c :: nat) div 16), digit ((of_char c :: nat) mod 16)]
      else [c])"

definition quote :: "string \<Rightarrow> string" where
  "quote s = [CHR 0x22] @ concat (map quote_char s) @ [CHR 0x22]"

fun JSON_stringify :: "json \<Rightarrow> string"
  and stringify_elems :: "json list \<Rightarrow> string list"
  and stringify_props :: "(string \<times> json) list \<Rightarrow> string list" where
  "JSON_stringify JNull = ''null''"
| "JSON_stringify (JBool b) = (if b then ''true'' else ''false'')"
| "JSON_stringify (JNum n) = show_int n"
| "JSON_stringify (JStr s) = quote s"
| "JSON_stringify (JArr xs) = ''['' @ intercalate '','' (stringify_elems xs) @ '']''"
| "JSON_stringify (JObj kvs) = ''{'' @ intercalate '','' (stringify_props kvs) @ ''}''"
| "stringify_elems [] = []"
| "stringify_elems (x # xs) = JSON_stringify x # stringify_elems xs"
| "stringify_props [] = []"
| "stringify_props ((k, v) # kvs) = (quote k @ '':'' @ JSON_stringify v) # stringify_props kvs"

text \<open>
  An object literal as its serialization sees it: \<^verbatim>\<open>JSON.stringify\<close> leaves out the
  members whose value is \<^verbatim>\<open>undefined\<close>.
\<close>

fun obj_lit :: "(string \<times> json option) list \<Rightarrow> (string \<times> json) list" where
  "obj_lit [] = []"
| "obj_lit ((k, None) # kvs) = obj_lit kvs"
| "obj_lit ((k, Some v) # kvs) = (k, v) # obj_lit kvs"

section \<open>Requests, responses and observable effects\<close>

record call_tool_request =
  name :: string
  arguments :: "json option"

record content_block =
  type :: string
  text' :: string

record call_tool_result =
  content :: "content_block list"

text \<open>
  The channels a process writes to: its two standard streams, and the HTTP event stream of
  the SSE transport.
\<close>

datatype channel = Stdout | Stderr | HttpStream

text \<open>
  What a handler or \<^verbatim>\<open>main\<close> does besides returning: \<open>Log\<close> is a \<^verbatim>\<open>console.error\<close>
  (on \<open>Stderr\<close>) or \<^verbatim>\<open>console.log\<close> (on \<open>Stdout\<close>) call with its leading text; the others
  are the calls made on the upstream clients, on the request's \<^verbatim>\<open>AbortSignal\<close> and on
  the process.
\<close>

datatype event =
    Log channel string
  | CreateQueryJob json bool
  | JobCancel json
  | GetQueryResults json
  | GetMetadata json
  | AddEventListener
  | RemoveEventListener
  | Fetch json
  | ResponseText
  | UsersProfileGet json
  | ProcessExit nat
  | ConnectStdio
  | Listen nat

text \<open>A response with one text block: \<^verbatim>\<open>{ content: [{ type: "text", text: s }] }\<close>.\<close>

definition text_result :: "string \<Rightarrow> call_tool_result" where
  "text_result s = \<lparr>content = [\<lparr>type = ''text'', text' = s\<rparr>]\<rparr>"

text \<open>
  The response of the \<^verbatim>\<open>catch\<close> block of every call-tool handler, with the text
  \<^verbatim>\<open>JSON.stringify({ error: error instanceof Error ? error.message : String(error) })\<close>.
\<close>

definition error_result :: "js_error \<Rightarrow> call_tool_result" where
  "error_result e = text_result (JSON_stringify (JObj [(''error'', JStr (error_message e))]))"

section \<open>The BigQuery service (\<^verbatim>\<open>packages/bigquery/index.ts\<close>)\<close>

subsection \<open>The upstream client and the request's abort signal\<close>

text \<open>
  A job handle of the BigQuery client library: its \<^verbatim>\<open>id\<close> and its \<^verbatim>\<open>metadata\<close>.
\<close>

record job =
  job_id :: json
  metadata :: "json option"

text \<open>
  What the world outside the handler answers during one request: the result of each
  promise of the client library (\<open>Inl\<close> a rejection; for \<^verbatim>\<open>job.cancel()\<close>, \<open>Some\<close> a
  rejection), with the job identified by its id. \<open>cost_in_usd\<close> is the floating-point
  expression \<^verbatim>\<open>(bytesProcessed / (1024 * 1024 * 1024 * 1024)) * 5\<close> of
  \<^verbatim>\<open>dryRunQuery\<close>, which is not computed here.
\<close>

record bq_env =
  createQueryJob :: "json \<Rightarrow> bool \<Rightarrow> js_error + job"
  job_cancel :: "json \<Rightarrow> js_error option"
  getQueryResults :: "json \<Rightarrow> js_error + json"
  getMetadata :: "json \<Rightarrow> js_error + json"
  cost_in_usd :: "json option \<Rightarrow> json"

text \<open>
  The \<^verbatim>\<open>AbortSignal\<close> of one request, as \<^verbatim>\<open>executeQuery\<close> sees it: its \<^verbatim>\<open>aborted\<close>
  flag, and whether the \<^verbatim>\<open>onAbort\<close> closure of this call is on its listener list.
\<close>

record abort_signal =
  aborted :: bool
  listening :: bool

text \<open>
  The client may abort the request while the handler is suspended at an \<^verbatim>\<open>await\<close>:
  the two suspension points of \<^verbatim>\<open>executeQuery\<close> at which the signal can still fire.
\<close>

datatype abort_point = WhileCreatingJob | WhileAwaitingResults

text \<open>
  The signal fires at most once. It invokes the listeners registered at that moment; a
  listener added with \<^verbatim>\<open>{ once: true }\<close> is removed as it is invoked. The second
  component tells whether \<^verbatim>\<open>onAbort\<close> was invoked.
\<close>

definition dispatch_abort :: "abort_signal \<Rightarrow> abort_signal \<times> bool" where
  "dispatch_abort s =
     (if aborted s then (s, False)
      else (s\<lparr>aborted := True, listening := False\<rparr>, listening s))"

definition addEventListener :: "abort_signal \<Rightarrow> abort_signal" where
  "addEventListener s = s\<lparr>listening := True\<rparr>"

definition removeEventListener :: "abort_signal \<Rightarrow> abort_signal" where
  "removeEventListener s = s\<lparr>listening := False\<rparr>"

text \<open>\<^verbatim>\<open>signal?.aborted\<close>\<close>

definition signal_aborted :: "abort_signal option \<Rightarrow> bool" where
  "signal_aborted signal = (case signal of None \<Rightarrow> False | Some s \<Rightarrow> aborted s)"

subsection \<open>\<^verbatim>\<open>class BigQueryClient\<close>\<close>

definition cancelled_response :: "(string \<times> json) list" where
  "cancelled_response = [(''success'', JBool False), (''error'', JStr ''Request was cancelled'')]"

definition failure_response :: "js_error \<Rightarrow> json" where
  "failure_response e = JObj [(''success'', JBool False), (''error'', JStr (error_message e))]"

text \<open>\<^verbatim>\<open>error instanceof Error && error.name === "AbortError"\<close>\<close>

fun is_AbortError :: "js_error \<Rightarrow> bool" where
  "is_AbortError (JsError nm msg) = (nm = ''AbortError'')"
| "is_AbortError (NonError s) = False"

text \<open>The \<^verbatim>\<open>catch\<close> block of \<^verbatim>\<open>executeQuery\<close>.\<close>

definition executeQuery_catch :: "js_error \<Rightarrow> json" where
  "executeQuery_catch error =
     (if is_AbortError error then JObj cancelled_response else failure_response error)"

text \<open>
  The listener \<^verbatim>\<open>onAbort\<close>: it asks the upstream to cancel the job and does not wait; a
  rejection of that request is logged.
\<close>

definition onAbort :: "bq_env \<Rightarrow> job \<Rightarrow> event list" where
  "onAbort env j =
     JobCancel (job_id j) #
       (case job_cancel env (job_id j) of
          Some err \<Rightarrow> [Log Stderr ''Failed to cancel BigQuery job:'']
        | None \<Rightarrow> [])"

text \<open>
  The wait for the results: the listener is added, \<^verbatim>\<open>job.getQueryResults()\<close> is
  awaited, and the \<^verbatim>\<open>finally\<close> block removes the listener. \<open>fires\<close> tells whether the
  client aborts the request during the wait.
\<close>

definition await_results ::
  "bq_env \<Rightarrow> job \<Rightarrow> bool \<Rightarrow> abort_signal option \<Rightarrow> abort_signal option \<times> event list" where
  "await_results env j fires signal =
     (case signal of
        None \<Rightarrow> (None, [GetQueryResults (job_id j)])
      | Some s \<Rightarrow>
          (case (if fires then dispatch_abort (addEventListener s)
                 else (addEventListener s, False)) of
             (s', invoked) \<Rightarrow>
               (Some (removeEventListener s'),
                [AddEventListener, GetQueryResults (job_id j)]
                  @ (if invoked then onAbort env j else [])
                  @ [RemoveEventListener])))"

text \<open>
  \<^verbatim>\<open>executeQuery(query, signal)\<close>. \<open>fire\<close> is the suspension point at which the client
  aborts the request, if it does so during the call. The result is the returned object,
  the signal as the call leaves it, and the events in the order they happen.
\<close>

definition executeQuery ::
  "bq_env \<Rightarrow> abort_point option \<Rightarrow> json \<Rightarrow> abort_signal option
     \<Rightarrow> json \<times> abort_signal option \<times> event list" where
  "executeQuery env fire query signal =
     (let sig1 = (if fire = Some WhileCreatingJob
                  then map_option (\<lambda>s. fst (dispatch_abort s)) signal else signal)
      in case createQueryJob env query False of
           Inl err \<Rightarrow> (executeQuery_catch err, sig1, [CreateQueryJob query False])
         | Inr j \<Rightarrow>
             if signal_aborted sig1 then
               (case job_cancel env (job_id j) of
                  Some err \<Rightarrow>
                    (executeQuery_catch err, sig1,
                     [CreateQueryJob query False, JobCancel (job_id j)])
                | None \<Rightarrow>
                    (JObj (cancelled_response @ [(''jobId'', job_id j)]), sig1,
                     [CreateQueryJob query False, JobCancel (job_id j)]))
             else
               (case await_results env j (fire = Some WhileAwaitingResults) sig1 of
                  (sig2, evs) \<Rightarrow>
                    (case getQueryResults env (job_id j) of
                       Inl err \<Rightarrow> (executeQuery_catch err, sig2, CreateQueryJob query False # evs)
                     | Inr rows \<Rightarrow>
                         (JObj [(''success'', JBool True), (''rows'', rows),
                                (''jobId'', job_id j)],
                          sig2, CreateQueryJob query False # evs))))"

text \<open>\<^verbatim>\<open>dryRunQuery(query)\<close>\<close>

definition dryRunQuery :: "bq_env \<Rightarrow> json \<Rightarrow> json \<times> event list" where
  "dryRunQuery env query =
     (case createQueryJob env query True of
        Inl err \<Rightarrow> (failure_response err, [CreateQueryJob query True])
      | Inr j \<Rightarrow>
          (case strict_prop (metadata j) ''statistics'' of
             Inl err \<Rightarrow> (failure_response err, [CreateQueryJob query True])
           | Inr statistics \<Rightarrow>
          (case strict_prop statistics ''query'' of
             Inl err \<Rightarrow> (failure_response err, [CreateQueryJob query True])
           | Inr q \<Rightarrow>
          (case strict_prop q ''totalBytesProcessed'' of
             Inl err \<Rightarrow> (failure_response err, [CreateQueryJob query True])
           | Inr bytesProcessed \<Rightarrow>
               (JObj (obj_lit
                  [(''success'', Some (JBool True)),
                   (''bytesProcessed'', bytesProcessed),
                   (''costInUSD'', Some (cost_in_usd env bytesProcessed)),
                   (''jobId'', Some (job_id j))]),
                [CreateQueryJob query True])))))"

text \<open>\<^verbatim>\<open>getJob(jobId)\<close>\<close>

definition getJob_response :: "json \<Rightarrow> json" where
  "getJob_response md =
     (let status = get_prop md ''status'';
          statistics = get_prop md ''statistics'';
          squery = opt_prop statistics ''query'';
          cquery = opt_prop (get_prop md ''configuration'') ''query''
      in JObj (obj_lit
           [(''success'', Some (JBool True)),
            (''jobId'', opt_prop (get_prop md ''jobReference'') ''jobId''),
            (''status'', Some (JObj (obj_lit
               [(''state'', opt_prop status ''state''),
                (''errorResult'', opt_prop status ''errorResult''),
                (''errors'', opt_prop status ''errors'')]))),
            (''statistics'', Some (JObj (obj_lit
               [(''creationTime'', opt_prop statistics ''creationTime''),
                (''startTime'', opt_prop statistics ''startTime''),
                (''endTime'', opt_prop statistics ''endTime''),
                (''totalBytesProcessed'', opt_prop squery ''totalBytesProcessed''),
                (''totalBytesBilled'', opt_prop squery ''totalBytesBilled''),
                (''cacheHit'', opt_prop squery ''cacheHit''),
                (''queryPlan'', opt_prop squery ''queryPlan'')]))),
            (''configuration'', Some (JObj (obj_lit
               [(''query'', opt_prop cquery ''query''),
                (''destinationTable'', opt_prop cquery ''destinationTable''),
                (''useLegacySql'', opt_prop cquery ''useLegacySql'')])))]))"

definition getJob :: "bq_env \<Rightarrow> json \<Rightarrow> json \<times> event list" where
  "getJob env jobId =
     (case getMetadata env jobId of
        Inl err \<Rightarrow> (failure_response err, [GetMetadata jobId])
      | Inr md \<Rightarrow>
          (case strict_prop (Some md) ''jobReference'' of
             Inl err \<Rightarrow> (failure_response err, [GetMetadata jobId])
           | Inr r \<Rightarrow> (getJob_response md, [GetMetadata jobId])))"

text \<open>\<^verbatim>\<open>cancelJob(jobId)\<close>\<close>

definition cancelJob_response :: "json \<Rightarrow> json" where
  "cancelJob_response md =
     (let status = get_prop md ''status''
      in JObj (obj_lit
           [(''success'', Some (JBool True)),
            (''jobId'', opt_prop (get_prop md ''jobReference'') ''jobId''),
            (''status'', Some (JObj (obj_lit
               [(''state'', opt_prop status ''state''),
                (''errorResult'', opt_prop status ''errorResult'')])))]))"

definition cancelJob :: "bq_env \<Rightarrow> json \<Rightarrow> json \<times> event list" where
  "cancelJob env jobId =
     (case job_cancel env jobId of
        Some err \<Rightarrow> (failure_response err, [JobCancel jobId])
      | None \<Rightarrow>
          (case getMetadata env jobId of
             Inl err \<Rightarrow> (failure_response err, [JobCancel jobId, GetMetadata jobId])
           | Inr md \<Rightarrow>
               (case strict_prop (Some md) ''jobReference'' of
                  Inl err \<Rightarrow> (failure_response err, [JobCancel jobId, GetMetadata jobId])
                | Inr r \<Rightarrow> (cancelJob_response md, [JobCancel jobId, GetMetadata jobId]))))"

subsection \<open>The call-tool handler\<close>

text \<open>
  The \<^verbatim>\<open>try\<close> block of the handler: \<open>Inl\<close> is what it throws. \<^verbatim>\<open>extra.signal\<close> is
  always there.
\<close>

definition bigquery_try ::
  "bq_env \<Rightarrow> abort_point option \<Rightarrow> call_tool_request \<Rightarrow> abort_signal
     \<Rightarrow> (js_error + call_tool_result) \<times> event list" where
  "bigquery_try env fire request signal =
     (if \<not> truthy (arguments request) then (Inl (JsError ''Error'' ''No arguments provided''), [])
      else if name request = ''bigquery_execute_query'' then
        (let query = opt_prop (arguments request) ''query'' in
         if \<not> truthy query then (Inl (JsError ''Error'' ''Missing required argument: query''), [])
         else (case executeQuery env fire (the query) (Some signal) of
                 (response, sig', evs) \<Rightarrow> (Inr (text_result (JSON_stringify response)), evs)))
      else if name request = ''bigquery_dry_run_query'' then
        (let query = opt_prop (arguments request) ''query'' in
         if \<not> truthy query then (Inl (JsError ''Error'' ''Missing required argument: query''), [])
         else (case dryRunQuery env (the query) of
                 (response, evs) \<Rightarrow> (Inr (text_result (JSON_stringify response)), evs)))
      else if name request = ''bigquery_get_job'' then
        (let jobId = opt_prop (arguments request) ''jobId'' in
         if \<not> truthy jobId then (Inl (JsError ''Error'' ''Missing required argument: jobId''), [])
         else (case getJob env (the jobId) of
                 (response, evs) \<Rightarrow> (Inr (text_result (JSON_stringify response)), evs)))
      else if name request = ''bigquery_cancel_job'' then
        (let jobId = opt_prop (arguments request) ''jobId'' in
         if \<not> truthy jobId then (Inl (JsError ''Error'' ''Missing required argument: jobId''), [])
         else (case cancelJob env (the jobId) of
                 (response, evs) \<Rightarrow> (Inr (text_result (JSON_stringify response)), evs)))
      else (Inl (JsError ''Error'' (''Unknown tool: '' @ name request)), []))"

text \<open>
  The handler registered for \<^verbatim>\<open>CallToolRequestSchema\<close>: \<open>Inl\<close> would be an error
  thrown to the protocol layer.
\<close>

definition bigquery_CallTool ::
  "bq_env \<Rightarrow> abort_point option \<Rightarrow> call_tool_request \<Rightarrow> abort_signal
     \<Rightarrow> (js_error + call_tool_result) \<times> event list" where
  "bigquery_CallTool env fire request signal =
     (case bigquery_try env fire request signal of
        (Inr result, evs) \<Rightarrow> (Inr result, Log Stderr ''Received CallToolRequest:'' # evs)
      | (Inl error, evs) \<Rightarrow>
          (Inr (error_result error),
           Log Stderr ''Received CallToolRequest:'' # evs @ [Log Stderr ''Error executing tool:'']))"

subsection \<open>The tool catalogue\<close>

text \<open>
  A tool descriptor: its name, its description, and of its input schema the properties
  (name, type, description) and the required ones.
\<close>

record tool =
  tool_name :: string
  description :: string
  properties :: "(string \<times> string \<times> string) list"
  required :: "string list"

definition executeQueryTool :: tool where
  "executeQueryTool =
     \<lparr>tool_name = ''bigquery_execute_query'',
      description = ''Execute a BigQuery SQL query'',
      properties = [(''query'', ''string'', ''The SQL query to execute'')],
      required = [''query'']\<rparr>"

definition dryRunQueryTool :: tool where
  "dryRunQueryTool =
     \<lparr>tool_name = ''bigquery_dry_run_query'',
      description = ''Perform a dry run of a BigQuery SQL query to estimate cost'',
      properties = [(''query'', ''string'', ''The SQL query to dry run'')],
      required = [''query'']\<rparr>"

definition getJobTool :: tool where
  "getJobTool =
     \<lparr>tool_name = ''bigquery_get_job'',
      description = ''Get detailed information about a BigQuery job including status, statistics, and configuration'',
      properties = [(''jobId'', ''string'', ''The BigQuery job ID to look up'')],
      required = [''jobId'']\<rparr>"

definition cancelJobTool :: tool where
  "cancelJobTool =
     \<lparr>tool_name = ''bigquery_cancel_job'',
      description = ''Cancel a running BigQuery job'',
      properties = [(''jobId'', ''string'', ''The BigQuery job ID to cancel'')],
      required = [''jobId'']\<rparr>"

text \<open>The handler registered for \<^verbatim>\<open>ListToolsRequestSchema\<close>.\<close>

definition bigquery_ListTools :: "tool list \<times> event list" where
  "bigquery_ListTools =
     ([executeQueryTool, dryRunQueryTool, getJobTool, cancelJobTool],
      [Log Stderr ''Received ListToolsRequest''])"

section \<open>The fetch service (\<^verbatim>\<open>packages/fetch/index.ts\<close>)\<close>

text \<open>
  The repository holds this service twice; the other copy has no prompt handlers and
  sends one more request header. Its call-tool handler and its list-tools handler are
  the ones below; its \<^verbatim>\<open>main\<close> is \<open>fetch_tools_only_main\<close>.
\<close>

text \<open>
  The response of the platform's \<^verbatim>\<open>fetch\<close>: \<^verbatim>\<open>response.ok\<close>, \<^verbatim>\<open>response.status\<close>, and
  what \<^verbatim>\<open>response.text()\<close> resolves to or rejects with.
\<close>

record http_response =
  ok :: bool
  status :: nat
  body :: "js_error + string"

record fetch_env =
  fetch :: "json \<Rightarrow> js_error + http_response"

definition fetchTool :: tool where
  "fetchTool =
     \<lparr>tool_name = ''fetch'',
      description = ''Fetches content from a URL'',
      properties = [(''url'', ''string'', ''URL to fetch'')],
      required = [''url'']\<rparr>"

text \<open>
  \<^verbatim>\<open>FetchClient.fetchUrl(url)\<close>: everything thrown inside is caught and thrown again,
  wrapped.
\<close>

definition fetchUrl_rethrow :: "json \<Rightarrow> js_error \<Rightarrow> js_error" where
  "fetchUrl_rethrow url error =
     JsError ''Error'' (''Failed to fetch '' @ js_String url @ '': '' @ error_toString error)"

definition fetchUrl :: "fetch_env \<Rightarrow> json \<Rightarrow> (js_error + string) \<times> event list" where
  "fetchUrl env url =
     (case fetch env url of
        Inl error \<Rightarrow> (Inl (fetchUrl_rethrow url error), [Fetch url])
      | Inr response \<Rightarrow>
          if \<not> ok response then
            (Inl (fetchUrl_rethrow url
                    (JsError ''Error''
                       (''Failed to fetch '' @ js_String url @ '' - status code ''
                          @ show_nat (status response)))),
             [Fetch url])
          else
            (case body response of
               Inl error \<Rightarrow> (Inl (fetchUrl_rethrow url error), [Fetch url, ResponseText])
             | Inr t \<Rightarrow> (Inr t, [Fetch url, ResponseText])))"

definition fetch_try ::
  "fetch_env \<Rightarrow> call_tool_request \<Rightarrow> (js_error + call_tool_result) \<times> event list" where
  "fetch_try env request =
     (if \<not> truthy (arguments request) then (Inl (JsError ''Error'' ''No arguments provided''), [])
      else if name request = ''fetch'' then
        (let url = opt_prop (arguments request) ''url'' in
         if \<not> truthy url then (Inl (JsError ''Error'' ''URL is required''), [])
         else (case fetchUrl env (the url) of
                 (Inl error, evs) \<Rightarrow> (Inl error, evs)
               | (Inr c, evs) \<Rightarrow>
                   (Inr (text_result
                           (''Contents of '' @ js_String (the url) @ '':'' @ [CHR 0x0A] @ c)),
                    evs)))
      else (Inl (JsError ''Error'' (''Unknown tool: '' @ name request)), []))"

definition fetch_CallTool ::
  "fetch_env \<Rightarrow> call_tool_request \<Rightarrow> (js_error + call_tool_result) \<times> event list" where
  "fetch_CallTool env request =
     (case fetch_try env request of
        (Inr result, evs) \<Rightarrow> (Inr result, Log Stderr ''Received CallToolRequest:'' # evs)
      | (Inl error, evs) \<Rightarrow>
          (Inr (error_result error),
           Log Stderr ''Received CallToolRequest:'' # evs @ [Log Stderr ''Error executing tool:'']))"

definition fetch_ListTools :: "tool list \<times> event list" where
  "fetch_ListTools = ([fetchTool], [Log Stderr ''Received ListToolsRequest''])"

subsection \<open>Prompts\<close>

record prompt_argument =
  argument_name :: string
  argument_description :: string
  argument_required :: bool

record prompt =
  prompt_name :: string
  prompt_description :: string
  prompt_arguments :: "prompt_argument list"

definition fetch_ListPrompts :: "prompt list \<times> event list" where
  "fetch_ListPrompts =
     ([\<lparr>prompt_name = ''fetch'',
        prompt_description = ''Fetch content from a URL'',
        prompt_arguments =
          [\<lparr>argument_name = ''url'', argument_description = ''URL to fetch'',
            argument_required = True\<rparr>]\<rparr>],
      [Log Stderr ''Received ListPromptsRequest''])"

record get_prompt_request =
  params_name :: string
  params_arguments :: "json option"

record prompt_message =
  role :: string
  message_content :: content_block

record get_prompt_result =
  result_description :: string
  messages :: "prompt_message list"

definition user_message :: "string \<Rightarrow> prompt_message" where
  "user_message s = \<lparr>role = ''user'', message_content = \<lparr>type = ''text'', text' = s\<rparr>\<rparr>"

text \<open>
  The handler registered for \<^verbatim>\<open>GetPromptRequestSchema\<close>. The inner \<^verbatim>\<open>try\<close> turns a
  failed fetch into a message; the outer \<^verbatim>\<open>catch\<close> logs and throws again.
\<close>

definition fetch_GetPrompt ::
  "fetch_env \<Rightarrow> get_prompt_request \<Rightarrow> (js_error + get_prompt_result) \<times> event list" where
  "fetch_GetPrompt env request =
     (let url = opt_prop (params_arguments request) ''url'' in
      if \<not> truthy url then
        (Inl (JsError ''Error'' ''URL is required''),
         [Log Stderr ''Received GetPromptRequest:'', Log Stderr ''Error handling prompt:''])
      else
        (case fetchUrl env (the url) of
           (Inr c, evs) \<Rightarrow>
             (Inr \<lparr>result_description = ''Contents of '' @ js_String (the url),
                   messages = [user_message c]\<rparr>,
              Log Stderr ''Received GetPromptRequest:'' # evs)
         | (Inl error, evs) \<Rightarrow>
             (Inr \<lparr>result_description = ''Failed to fetch '' @ js_String (the url),
                   messages = [user_message (error_message error)]\<rparr>,
              Log Stderr ''Received GetPromptRequest:'' # evs)))"

section \<open>The template service (\<^verbatim>\<open>template/index.ts\<close>)\<close>

text \<open>
  \<^verbatim>\<open>SlackClient.getUserProfile(user_id)\<close> awaits the platform's \<^verbatim>\<open>fetch\<close> and returns
  \<^verbatim>\<open>response.json()\<close>; nothing is caught there. The environment gives the outcome of
  the two together.
\<close>

record slack_env =
  users_profile_get :: "json \<Rightarrow> js_error + json"

definition getUserProfileTool :: tool where
  "getUserProfileTool =
     \<lparr>tool_name = ''slack_get_user_profile'',
      description = ''Get detailed profile information for a specific user'',
      properties = [(''user_id'', ''string'', ''The ID of the user'')],
      required = [''user_id'']\<rparr>"

definition getUserProfile :: "slack_env \<Rightarrow> json \<Rightarrow> (js_error + json) \<times> event list" where
  "getUserProfile env user_id = (users_profile_get env user_id, [UsersProfileGet user_id])"

definition slack_try ::
  "slack_env \<Rightarrow> call_tool_request \<Rightarrow> (js_error + call_tool_result) \<times> event list" where
  "slack_try env request =
     (if \<not> truthy (arguments request) then (Inl (JsError ''Error'' ''No arguments provided''), [])
      else if name request = ''slack_get_user_profile'' then
        (let user_id = opt_prop (arguments request) ''user_id'' in
         if \<not> truthy user_id
         then (Inl (JsError ''Error'' ''Missing required argument: user_id''), [])
         else (case getUserProfile env (the user_id) of
                 (Inl error, evs) \<Rightarrow> (Inl error, evs)
               | (Inr response, evs) \<Rightarrow> (Inr (text_result (JSON_stringify response)), evs)))
      else (Inl (JsError ''Error'' (''Unknown tool: '' @ name request)), []))"

definition slack_CallTool ::
  "slack_env \<Rightarrow> call_tool_request \<Rightarrow> (js_error + call_tool_result) \<times> event list" where
  "slack_CallTool env request =
     (case slack_try env request of
        (Inr result, evs) \<Rightarrow> (Inr result, Log Stderr ''Received CallToolRequest:'' # evs)
      | (Inl error, evs) \<Rightarrow>
          (Inr (error_result error),
           Log Stderr ''Received CallToolRequest:'' # evs @ [Log Stderr ''Error executing tool:'']))"

definition slack_ListTools :: "tool list \<times> event list" where
  "slack_ListTools = ([getUserProfileTool], [Log Stderr ''Received ListToolsRequest''])"

section \<open>The stdio-only BigQuery server (second program of \<^verbatim>\<open>template/index.ts\<close>)\<close>

text \<open>
  \<^verbatim>\<open>template/index.ts\<close> holds a second program after the Slack one: a BigQuery server with
  the two query tools, no abort signal and the stdio transport only. Its tool descriptors
  and its \<^verbatim>\<open>dryRunQuery\<close> are those of the BigQuery service above.
\<close>

definition stdio_executeQuery :: "bq_env \<Rightarrow> json \<Rightarrow> json \<times> event list" where
  "stdio_executeQuery env query =
     (case createQueryJob env query False of
        Inl err \<Rightarrow> (failure_response err, [CreateQueryJob query False])
      | Inr j \<Rightarrow>
          (case getQueryResults env (job_id j) of
             Inl err \<Rightarrow>
               (failure_response err, [CreateQueryJob query False, GetQueryResults (job_id j)])
           | Inr rows \<Rightarrow>
               (JObj [(''success'', JBool True), (''rows'', rows), (''jobId'', job_id j)],
                [CreateQueryJob query False, GetQueryResults (job_id j)])))"

definition stdio_bigquery_try ::
  "bq_env \<Rightarrow> call_tool_request \<Rightarrow> (js_error + call_tool_result) \<times> event list" where
  "stdio_bigquery_try env request =
     (if \<not> truthy (arguments request) then (Inl (JsError ''Error'' ''No arguments provided''), [])
      else if name request = ''bigquery_execute_query'' then
        (let query = opt_prop (arguments request) ''query'' in
         if \<not> truthy query then (Inl (JsError ''Error'' ''Missing required argument: query''), [])
         else (case stdio_executeQuery env (the query) of
                 (response, evs) \<Rightarrow> (Inr (text_result (JSON_stringify response)), evs)))
      else if name request = ''bigquery_dry_run_query'' then
        (let query = opt_prop (arguments request) ''query'' in
         if \<not> truthy query then (Inl (JsError ''Error'' ''Missing required argument: query''), [])
         else (case dryRunQuery env (the query) of
                 (response, evs) \<Rightarrow> (Inr (text_result (JSON_stringify response)), evs)))
      else (Inl (JsError ''Error'' (''Unknown tool: '' @ name request)), []))"

definition stdio_bigquery_CallTool ::
  "bq_env \<Rightarrow> call_tool_request \<Rightarrow> (js_error + call_tool_result) \<times> event list" where
  "stdio_bigquery_CallTool env request =
     (case stdio_bigquery_try env request of
        (Inr result, evs) \<Rightarrow> (Inr result, Log Stderr ''Received CallToolRequest:'' # evs)
      | (Inl error, evs) \<Rightarrow>
          (Inr (error_result error),
           Log Stderr ''Received CallToolRequest:'' # evs @ [Log Stderr ''Error executing tool:'']))"

definition stdio_bigquery_ListTools :: "tool list \<times> event list" where
  "stdio_bigquery_ListTools =
     ([executeQueryTool, dryRunQueryTool], [Log Stderr ''Received ListToolsRequest''])"

section \<open>Start-up and transports\<close>

text \<open>
  \<^verbatim>\<open>!process.env.X\<close>: the variable is not set, or set to the empty string.
\<close>

definition env_missing :: "(string \<rightharpoonup> string) \<Rightarrow> string \<Rightarrow> bool" where
  "env_missing env x = (case env x of None \<Rightarrow> True | Some v \<Rightarrow> v = [])"

text \<open>
  The end of every \<^verbatim>\<open>main\<close>: with \<^verbatim>\<open>--sse\<close> among the arguments an HTTP listener on
  port 3000, whose callback logs with \<^verbatim>\<open>console.log\<close>; otherwise the stdio transport.
\<close>

definition start_transport :: "string list \<Rightarrow> event list" where
  "start_transport argv =
     (if ''--sse'' \<in> set argv
      then [Listen 3000, Log Stdout ''[sse] MCP Server running on http://localhost:3000'']
      else [Log Stderr ''[stdio] Connecting server to transport...'', ConnectStdio,
            Log Stderr ''[stdio] MCP Server running on stdio''])"

text \<open>
  The channel that carries the protocol messages: the process's standard output under the
  stdio transport, the HTTP event stream under the SSE transport.
\<close>

definition protocol_channel :: "string list \<Rightarrow> channel" where
  "protocol_channel argv = (if ''--sse'' \<in> set argv then HttpStream else Stdout)"

text \<open>
  Every \<^verbatim>\<open>main\<close> builds its \<^verbatim>\<open>Server\<close> with the capabilities it declares and then registers
  its handlers. \<^verbatim>\<open>setRequestHandler(schema, handler)\<close> of the SDK first asserts that the
  capability to which the method of the schema belongs was declared, and throws an
  \<^verbatim>\<open>Error\<close> when it was not. The methods are those of the four schemas the programs
  register.
\<close>

definition required_capability :: "string \<Rightarrow> string option" where
  "required_capability method =
     (if method = ''tools/call'' \<or> method = ''tools/list'' then Some ''tools''
      else if method = ''prompts/get'' \<or> method = ''prompts/list'' then Some ''prompts''
      else None)"

definition setRequestHandler :: "string list \<Rightarrow> string \<Rightarrow> js_error option" where
  "setRequestHandler capabilities method =
     (case required_capability method of
        None \<Rightarrow> None
      | Some c \<Rightarrow>
          if c \<in> set capabilities then None
          else Some (JsError ''Error''
                 (''Server does not support '' @ c @ '' (required for '' @ method @ '')'')))"

text \<open>The registrations of a \<^verbatim>\<open>main\<close>, in their order: the first that throws ends them.\<close>

fun setRequestHandlers :: "string list \<Rightarrow> string list \<Rightarrow> js_error option" where
  "setRequestHandlers capabilities [] = None"
| "setRequestHandlers capabilities (method # methods) =
     (case setRequestHandler capabilities method of
        Some error \<Rightarrow> Some error
      | None \<Rightarrow> setRequestHandlers capabilities methods)"

text \<open>
  \<^verbatim>\<open>main().catch(...)\<close>, at the end of every program: what \<^verbatim>\<open>main\<close> throws is logged and
  the process exits with status 1.
\<close>

definition main_catch :: "event list" where
  "main_catch = [Log Stderr ''Fatal error in main():'', ProcessExit 1]"

text \<open>
  \<^verbatim>\<open>main\<close> of the BigQuery service, with the handler of its rejection.
  \<open>parses\<close> tells whether \<^verbatim>\<open>JSON.parse\<close> accepts the credentials in the constructor of
  \<^verbatim>\<open>BigQueryClient\<close>. The server declares \<^verbatim>\<open>{ tools: {} }\<close> and registers the call-tool
  and the list-tools handler.
\<close>

definition bigquery_main ::
  "(string \<Rightarrow> bool) \<Rightarrow> (string \<rightharpoonup> string) \<Rightarrow> string list \<Rightarrow> event list" where
  "bigquery_main parses env argv =
     (if env_missing env ''BIGQUERY_CREDENTIALS''
      then [Log Stderr ''Please set BIGQUERY_CREDENTIALS environment variable'', ProcessExit 1]
      else Log Stderr ''Starting BigQuery MCP Server...'' #
        (if \<not> parses (the (env ''BIGQUERY_CREDENTIALS'')) then main_catch
         else (case setRequestHandlers [''tools''] [''tools/call'', ''tools/list''] of
                 Some error \<Rightarrow> main_catch
               | None \<Rightarrow> start_transport argv)))"

definition slack_main :: "(string \<rightharpoonup> string) \<Rightarrow> string list \<Rightarrow> event list" where
  "slack_main env argv =
     (if env_missing env ''SLACK_BOT_TOKEN'' \<or> env_missing env ''SLACK_TEAM_ID''
      then [Log Stderr ''Please set SLACK_BOT_TOKEN and SLACK_TEAM_ID environment variables'',
            ProcessExit 1]
      else Log Stderr ''Starting Slack MCP Server...'' #
        (case setRequestHandlers [''tools''] [''tools/call'', ''tools/list''] of
           Some error \<Rightarrow> main_catch
         | None \<Rightarrow> start_transport argv))"

definition DEFAULT_USER_AGENT :: string where
  "DEFAULT_USER_AGENT =
     ''ModelContextProtocol/1.0 (+https://github.com/modelcontextprotocol/servers)''"

text \<open>\<^verbatim>\<open>process.env.MCP_USER_AGENT || DEFAULT_USER_AGENT\<close>\<close>

definition user_agent :: "(string \<rightharpoonup> string) \<Rightarrow> string" where
  "user_agent env =
     (if env_missing env ''MCP_USER_AGENT'' then DEFAULT_USER_AGENT
      else the (env ''MCP_USER_AGENT''))"

text \<open>
  \<^verbatim>\<open>main\<close> of the fetch service (\<^verbatim>\<open>packages/fetch/index.ts\<close>); the first component is the
  user agent its client is built with. The server declares \<^verbatim>\<open>{ tools: {} }\<close> only, and
  \<^verbatim>\<open>main\<close> registers the two tool handlers and then the two prompt handlers.
\<close>

definition fetch_main :: "(string \<rightharpoonup> string) \<Rightarrow> string list \<Rightarrow> string \<times> event list" where
  "fetch_main env argv =
     (user_agent env,
      Log Stderr ''Starting Fetch MCP Server...'' #
        (case setRequestHandlers [''tools'']
                [''tools/call'', ''tools/list'', ''prompts/list'', ''prompts/get''] of
           Some error \<Rightarrow> main_catch
         | None \<Rightarrow> start_transport argv))"

text \<open>
  \<^verbatim>\<open>main\<close> of the copy of the fetch service that has no prompt handlers: it registers the
  two tool handlers only.
\<close>

definition fetch_tools_only_main ::
  "(string \<rightharpoonup> string) \<Rightarrow> string list \<Rightarrow> string \<times> event list" where
  "fetch_tools_only_main env argv =
     (user_agent env,
      Log Stderr ''Starting Fetch MCP Server...'' #
        (case setRequestHandlers [''tools''] [''tools/call'', ''tools/list''] of
           Some error \<Rightarrow> main_catch
         | None \<Rightarrow> start_transport argv))"

text \<open>
  \<^verbatim>\<open>main\<close> of the stdio-only BigQuery server: it does not look at the arguments.
\<close>

definition stdio_bigquery_main :: "(string \<Rightarrow> bool) \<Rightarrow> (string \<rightharpoonup> string) \<Rightarrow> event list" where
  "stdio_bigquery_main parses env =
     (if env_missing env ''BIGQUERY_CREDENTIALS''
      then [Log Stderr ''Please set BIGQUERY_CREDENTIALS environment variable'', ProcessExit 1]
      else Log Stderr ''Starting BigQuery MCP Server...'' #
        (if \<not> parses (the (env ''BIGQUERY_CREDENTIALS'')) then main_catch
         else (case setRequestHandlers [''tools''] [''tools/call'', ''tools/list''] of
                 Some error \<Rightarrow> main_catch
               | None \<Rightarrow>
                   [Log Stderr ''Connecting server to transport...'', ConnectStdio,
                    Log Stderr ''BigQuery MCP Server running on stdio''])))"



subsection \<open>The two endpoints of the SSE transport\<close>

text \<open>
  \<^verbatim>\<open>let transport: SSEServerTransport | null = null\<close> is the only state; a transport is
  told apart by the response object it was built on. \<open>GET /sse\<close> stores a new transport
  and connects the server to it; \<open>POST /messages\<close> hands the request to the stored
  transport, if there is one.
\<close>

datatype 'm http_request = GetSse nat | PostMessages 'm

datatype 'm sse_effect = ServerConnect nat | HandlePostMessage nat 'm

definition app_get_sse :: "nat \<Rightarrow> nat option \<Rightarrow> nat option \<times> 'm sse_effect list" where
  "app_get_sse res transport = (Some res, [ServerConnect res])"

definition app_post_messages :: "'m \<Rightarrow> nat option \<Rightarrow> nat option \<times> 'm sse_effect list" where
  "app_post_messages req transport =
     (case transport of
        Some t \<Rightarrow> (transport, [HandlePostMessage t req])
      | None \<Rightarrow> (transport, []))"

fun serve :: "'m http_request list \<Rightarrow> nat option \<Rightarrow> nat option \<times> 'm sse_effect list" where
  "serve [] transport = (transport, [])"
| "serve (GetSse res # reqs) transport =
     (case app_get_sse res transport of
        (transport', effs) \<Rightarrow>
          (case serve reqs transport' of (transport'', effs') \<Rightarrow> (transport'', effs @ effs')))"
| "serve (PostMessages req # reqs) transport =
     (case app_post_messages req transport of
        (transport', effs) \<Rightarrow>
          (case serve reqs transport' of (transport'', effs') \<Rightarrow> (transport'', effs @ effs')))"

section \<open>Sample environments\<close>

text \<open>Concrete environments and signals, on which the properties below are evaluated.\<close>

definition sample_bq_env :: bq_env where
  "sample_bq_env =
     \<lparr>createQueryJob = (\<lambda>q d. Inr \<lparr>job_id = JStr ''job_1'', metadata = None\<rparr>),
      job_cancel = (\<lambda>j. None),
      getQueryResults = (\<lambda>j. Inr (JArr [JObj [(''n'', JNum 1)]])),
      getMetadata = (\<lambda>j. Inr (JObj [(''jobReference'', JObj [(''jobId'', j)])])),
      cost_in_usd = (\<lambda>b. JNum 0)\<rparr>"

definition rejecting_bq_env :: bq_env where
  "rejecting_bq_env =
     \<lparr>createQueryJob = (\<lambda>q d. Inl (JsError ''ApiError'' ''Syntax error'')),
      job_cancel = (\<lambda>j. Some (JsError ''ApiError'' ''Not found'')),
      getQueryResults = (\<lambda>j. Inl (JsError ''ApiError'' ''Not found'')),
      getMetadata = (\<lambda>j. Inl (JsError ''ApiError'' ''Not found'')),
      cost_in_usd = (\<lambda>b. JNull)\<rparr>"

definition live_signal :: abort_signal where
  "live_signal = \<lparr>aborted = False, listening = False\<rparr>"

definition aborted_signal :: abort_signal where
  "aborted_signal = \<lparr>aborted = True, listening = False\<rparr>"

definition sample_fetch_env :: fetch_env where
  "sample_fetch_env = \<lparr>fetch = (\<lambda>u. Inr \<lparr>ok = True, status = 200, body = Inr ''<html>ok</html>''\<rparr>)\<rparr>"

definition failing_fetch_env :: fetch_env where
  "failing_fetch_env = \<lparr>fetch = (\<lambda>u. Inl (JsError ''TypeError'' ''fetch failed''))\<rparr>"

definition sample_slack_env :: slack_env where
  "sample_slack_env = \<lparr>users_profile_get = (\<lambda>u. Inr (JObj [(''ok'', JBool True)]))\<rparr>"

definition failing_slack_env :: slack_env where
  "failing_slack_env = \<lparr>users_profile_get = (\<lambda>u. Inl (JsError ''TypeError'' ''fetch failed''))\<rparr>"

definition cancelled_results_env :: bq_env where
  "cancelled_results_env =
     sample_bq_env\<lparr>getQueryResults := (\<lambda>j. Inl (JsError ''ApiError'' ''Job was cancelled''))\<rparr>"

section \<open>Observations on traces\<close>

text \<open>The calls that reach an upstream system.\<close>

fun is_upstream :: "event \<Rightarrow> bool" where
  "is_upstream (CreateQueryJob q d) = True"
| "is_upstream (JobCancel j) = True"
| "is_upstream (GetQueryResults j) = True"
| "is_upstream (GetMetadata j) = True"
| "is_upstream (Fetch u) = True"
| "is_upstream ResponseText = True"
| "is_upstream (UsersProfileGet u) = True"
| "is_upstream ev = False"

fun is_job_cancel :: "event \<Rightarrow> bool" where
  "is_job_cancel (JobCancel j) = True"
| "is_job_cancel ev = False"

text \<open>An arguments object without its member \<open>f\<close>.\<close>

definition omit :: "string \<Rightarrow> (string \<times> json) list \<Rightarrow> (string \<times> json) list" where
  "omit f kvs = filter (\<lambda>kv. fst kv \<noteq> f) kvs"

text \<open>The channels on which a trace writes diagnostics.\<close>

fun log_channels :: "event list \<Rightarrow> channel list" where
  "log_channels [] = []"
| "log_channels (Log c s # evs) = c # log_channels evs"
| "log_channels (ev # evs) = log_channels evs"

section \<open>Properties\<close>

subsection \<open>The text of the failure envelopes\<close>

lemma error_result_payload:
  "error_result e = text_result (JSON_stringify (JObj [(''error'', JStr (error_message e))]))"
  by (simp add: error_result_def)

lemma no_arguments_text:
  \<open>error_result (JsError ''Error'' ''No arguments provided'') =
     text_result ''{"error":"No arguments provided"}''\<close>
  by (simp add: error_result_def quote_def quote_char_def)

lemma missing_query_text:
  \<open>error_result (JsError ''Error'' (''Missing required argument: '' @ ''query'')) =
     text_result ''{"error":"Missing required argument: query"}''\<close>
  by (simp add: error_result_def quote_def quote_char_def)

lemma url_required_text:
  \<open>error_result (JsError ''Error'' ''URL is required'') = text_result ''{"error":"URL is required"}''\<close>
  by (simp add: error_result_def quote_def quote_char_def)

lemma opt_prop_Some_truthy: "opt_prop args k = Some v \<Longrightarrow> truthy args"
  by (cases "(args, k)" rule: opt_prop.cases) auto

subsection \<open>Requests without arguments\<close>

text \<open>
  C6. A call-tool request whose \<^verbatim>\<open>arguments\<close> is absent or \<^verbatim>\<open>null\<close> is answered, by each
  of the call-tool handlers and for every tool name, registered or not, by the envelope whose
  single text block is \<^verbatim>\<open>{"error":"No arguments provided"}\<close>. Nothing is thrown to the
  protocol layer, and the trace holds the two diagnostics only: no client is called. The
  check comes before the \<^verbatim>\<open>switch\<close> on the name, so it wins over the unknown-tool failure.
\<close>

theorem no_arguments_provided:
  assumes "arguments request = None \<or> arguments request = Some JNull"
  shows \<open>bigquery_CallTool benv fire request signal =
           (Inr (text_result ''{"error":"No arguments provided"}''),
            [Log Stderr ''Received CallToolRequest:'', Log Stderr ''Error executing tool:''])
       \<and> fetch_CallTool fenv request =
           (Inr (text_result ''{"error":"No arguments provided"}''),
            [Log Stderr ''Received CallToolRequest:'', Log Stderr ''Error executing tool:''])
       \<and> slack_CallTool senv request =
           (Inr (text_result ''{"error":"No arguments provided"}''),
            [Log Stderr ''Received CallToolRequest:'', Log Stderr ''Error executing tool:''])
       \<and> stdio_bigquery_CallTool benv request =
           (Inr (text_result ''{"error":"No arguments provided"}''),
            [Log Stderr ''Received CallToolRequest:'', Log Stderr ''Error executing tool:''])\<close>
proof -
  from assms have falsy: "\<not> truthy (arguments request)"
    by auto
  have b: "bigquery_try benv fire request signal =
             (Inl (JsError ''Error'' ''No arguments provided''), [])"
    using falsy by (simp add: bigquery_try_def)
  have f: "fetch_try fenv request = (Inl (JsError ''Error'' ''No arguments provided''), [])"
    using falsy by (simp add: fetch_try_def)
  have s: "slack_try senv request = (Inl (JsError ''Error'' ''No arguments provided''), [])"
    using falsy by (simp add: slack_try_def)
  have o: "stdio_bigquery_try benv request =
             (Inl (JsError ''Error'' ''No arguments provided''), [])"
    using falsy by (simp add: stdio_bigquery_try_def)
  show ?thesis
    by (simp add: bigquery_CallTool_def fetch_CallTool_def slack_CallTool_def
        stdio_bigquery_CallTool_def b f s o no_arguments_text)
qed

theorem no_arguments_provided_witness:
  \<open>fst (bigquery_CallTool sample_bq_env None
           \<lparr>name = ''bigquery_execute_query'', arguments = None\<rparr> live_signal) =
     Inr (text_result ''{"error":"No arguments provided"}'')
   \<and> fst (fetch_CallTool sample_fetch_env \<lparr>name = ''no_such_tool'', arguments = Some JNull\<rparr>) =
     Inr (text_result ''{"error":"No arguments provided"}'')
   \<and> snd (slack_CallTool sample_slack_env \<lparr>name = ''no_such_tool'', arguments = None\<rparr>) =
     [Log Stderr ''Received CallToolRequest:'', Log Stderr ''Error executing tool:'']\<close>
  using
    no_arguments_provided [of "\<lparr>name = ''bigquery_execute_query'', arguments = None\<rparr>"
      sample_bq_env None live_signal sample_fetch_env sample_slack_env]
    no_arguments_provided [of "\<lparr>name = ''no_such_tool'', arguments = Some JNull\<rparr>"
      sample_bq_env None live_signal sample_fetch_env sample_slack_env]
    no_arguments_provided [of "\<lparr>name = ''no_such_tool'', arguments = None\<rparr>"
      sample_bq_env None live_signal sample_fetch_env sample_slack_env]
  by simp

subsection \<open>Required arguments\<close>

lemma executeQuery_starts:
  "\<exists>evs. snd (snd (executeQuery env fire q signal)) = CreateQueryJob q False # evs"
  by (simp add: executeQuery_def Let_def split_beta split: sum.splits option.splits)

lemma bigquery_tools:
  assumes "t \<in> set (fst bigquery_ListTools)" and "f \<in> set (required t)"
  shows "(tool_name t = ''bigquery_execute_query'' \<or> tool_name t = ''bigquery_dry_run_query'') \<and> f = ''query''
       \<or> (tool_name t = ''bigquery_get_job'' \<or> tool_name t = ''bigquery_cancel_job'') \<and> f = ''jobId''"
  using assms
  by (auto simp add: bigquery_ListTools_def executeQueryTool_def dryRunQueryTool_def getJobTool_def
      cancelJobTool_def)

lemma bigquery_rejects_falsy:
  assumes "t \<in> set (fst bigquery_ListTools)" and "f \<in> set (required t)"
    and "\<not> truthy (map_of kvs f)"
  shows "bigquery_CallTool env fire \<lparr>name = tool_name t, arguments = Some (JObj kvs)\<rparr> signal =
           (Inr (error_result (JsError ''Error'' (''Missing required argument: '' @ f))),
            [Log Stderr ''Received CallToolRequest:'', Log Stderr ''Error executing tool:''])"
  using bigquery_tools [OF assms(1,2)] assms(3)
  by (auto simp add: bigquery_CallTool_def bigquery_try_def)

lemma bigquery_accepts_truthy:
  assumes "t \<in> set (fst bigquery_ListTools)" and "f \<in> set (required t)"
    and "truthy (map_of kvs f)"
  shows "list_ex is_upstream
           (snd (bigquery_CallTool env fire \<lparr>name = tool_name t, arguments = Some (JObj kvs)\<rparr> signal))"
proof -
  obtain evs where "snd (snd (executeQuery env fire (the (map_of kvs f)) (Some signal))) =
      CreateQueryJob (the (map_of kvs f)) False # evs"
    using executeQuery_starts by blast
  moreover have "list_ex is_upstream (snd (dryRunQuery env v))" for v
    by (simp add: dryRunQuery_def split: sum.splits)
  moreover have "list_ex is_upstream (snd (getJob env v))" for v
    by (simp add: getJob_def split: sum.splits)
  moreover have "list_ex is_upstream (snd (cancelJob env v))" for v
    by (simp add: cancelJob_def split: sum.splits option.splits)
  ultimately show ?thesis
    using bigquery_tools [OF assms(1,2)] assms(3)
    by (auto simp add: bigquery_CallTool_def bigquery_try_def Let_def split_beta)
qed

lemma stdio_bigquery_tools:
  assumes "t \<in> set (fst stdio_bigquery_ListTools)" and "f \<in> set (required t)"
  shows "(tool_name t = ''bigquery_execute_query'' \<or> tool_name t = ''bigquery_dry_run_query'')
         \<and> f = ''query''"
  using assms
  by (auto simp add: stdio_bigquery_ListTools_def executeQueryTool_def dryRunQueryTool_def)

lemma stdio_bigquery_rejects_falsy:
  assumes "t \<in> set (fst stdio_bigquery_ListTools)" and "f \<in> set (required t)"
    and "\<not> truthy (map_of kvs f)"
  shows "stdio_bigquery_CallTool env \<lparr>name = tool_name t, arguments = Some (JObj kvs)\<rparr> =
           (Inr (error_result (JsError ''Error'' (''Missing required argument: '' @ f))),
            [Log Stderr ''Received CallToolRequest:'', Log Stderr ''Error executing tool:''])"
  using stdio_bigquery_tools [OF assms(1,2)] assms(3)
  by (auto simp add: stdio_bigquery_CallTool_def stdio_bigquery_try_def)

lemma stdio_bigquery_accepts_truthy:
  assumes "t \<in> set (fst stdio_bigquery_ListTools)" and "f \<in> set (required t)"
    and "truthy (map_of kvs f)"
  shows "list_ex is_upstream
           (snd (stdio_bigquery_CallTool env \<lparr>name = tool_name t, arguments = Some (JObj kvs)\<rparr>))"
proof -
  have "list_ex is_upstream (snd (stdio_executeQuery env v))" for v
    by (simp add: stdio_executeQuery_def split: sum.splits)
  moreover have "list_ex is_upstream (snd (dryRunQuery env v))" for v
    by (simp add: dryRunQuery_def split: sum.splits)
  ultimately show ?thesis
    using stdio_bigquery_tools [OF assms(1,2)] assms(3)
    by (auto simp add: stdio_bigquery_CallTool_def stdio_bigquery_try_def Let_def split_beta)
qed

lemma slack_tools:
  assumes "t \<in> set (fst slack_ListTools)" and "f \<in> set (required t)"
  shows "tool_name t = ''slack_get_user_profile'' \<and> f = ''user_id''"
  using assms by (auto simp add: slack_ListTools_def getUserProfileTool_def)

lemma slack_rejects_falsy:
  assumes "t \<in> set (fst slack_ListTools)" and "f \<in> set (required t)"
    and "\<not> truthy (map_of kvs f)"
  shows "slack_CallTool env \<lparr>name = tool_name t, arguments = Some (JObj kvs)\<rparr> =
           (Inr (error_result (JsError ''Error'' (''Missing required argument: '' @ f))),
            [Log Stderr ''Received CallToolRequest:'', Log Stderr ''Error executing tool:''])"
  using slack_tools [OF assms(1,2)] assms(3)
  by (simp add: slack_CallTool_def slack_try_def)

lemma slack_accepts_truthy:
  assumes "t \<in> set (fst slack_ListTools)" and "f \<in> set (required t)"
    and "truthy (map_of kvs f)"
  shows "list_ex is_upstream (snd (slack_CallTool env \<lparr>name = tool_name t, arguments = Some (JObj kvs)\<rparr>))"
  using slack_tools [OF assms(1,2)] assms(3)
  by (simp add: slack_CallTool_def slack_try_def getUserProfile_def Let_def split: sum.splits)

lemma fetch_tools:
  assumes "t \<in> set (fst fetch_ListTools)" and "f \<in> set (required t)"
  shows "tool_name t = ''fetch'' \<and> f = ''url''"
  using assms by (auto simp add: fetch_ListTools_def fetchTool_def)

lemma fetch_rejects_falsy:
  assumes "t \<in> set (fst fetch_ListTools)" and "f \<in> set (required t)"
    and "\<not> truthy (map_of kvs f)"
  shows "fetch_CallTool env \<lparr>name = tool_name t, arguments = Some (JObj kvs)\<rparr> =
           (Inr (error_result (JsError ''Error'' ''URL is required'')),
            [Log Stderr ''Received CallToolRequest:'', Log Stderr ''Error executing tool:''])"
  using fetch_tools [OF assms(1,2)] assms(3)
  by (simp add: fetch_CallTool_def fetch_try_def)

lemma fetch_accepts_truthy:
  assumes "t \<in> set (fst fetch_ListTools)" and "f \<in> set (required t)"
    and "truthy (map_of kvs f)"
  shows "list_ex is_upstream (snd (fetch_CallTool env \<lparr>name = tool_name t, arguments = Some (JObj kvs)\<rparr>))"
proof -
  have "list_ex is_upstream (snd (fetchUrl env u))" for u
    by (simp add: fetchUrl_def split: sum.splits)
  then show ?thesis
    using fetch_tools [OF assms(1,2)] assms(3)
    by (simp add: fetch_CallTool_def fetch_try_def Let_def split_beta split: sum.splits)
qed

lemma map_of_omit: "map_of (omit f kvs) f = None"
  by (simp add: omit_def map_of_eq_None_iff image_iff)

text \<open>
  C2, as the code has it. For every tool of the BigQuery servers and of the template service and
  every field \<open>f\<close> its schema requires, a request whose arguments object has no member \<open>f\<close>
  is answered by the envelope of \<^verbatim>\<open>Missing required argument: f\<close>, and the trace holds the two
  diagnostics only: the client is not called. The fetch tool answers such a request with
  \<^verbatim>\<open>URL is required\<close> instead, which does not name the field. In every service a
  request that gives \<open>f\<close> a truthy value reaches the client: the trace holds an upstream
  call.
\<close>

theorem required_argument_validation:
  assumes "f \<in> set (required t)"
  shows "(t \<in> set (fst bigquery_ListTools) \<longrightarrow>
           (map_of kvs f = None \<longrightarrow>
              bigquery_CallTool benv fire \<lparr>name = tool_name t, arguments = Some (JObj kvs)\<rparr> signal =
                (Inr (error_result (JsError ''Error'' (''Missing required argument: '' @ f))),
                 [Log Stderr ''Received CallToolRequest:'', Log Stderr ''Error executing tool:'']))
         \<and> (truthy (map_of kvs f) \<longrightarrow>
              list_ex is_upstream (snd (bigquery_CallTool benv fire
                \<lparr>name = tool_name t, arguments = Some (JObj kvs)\<rparr> signal))))
       \<and> (t \<in> set (fst slack_ListTools) \<longrightarrow>
           (map_of kvs f = None \<longrightarrow>
              slack_CallTool senv \<lparr>name = tool_name t, arguments = Some (JObj kvs)\<rparr> =
                (Inr (error_result (JsError ''Error'' (''Missing required argument: '' @ f))),
                 [Log Stderr ''Received CallToolRequest:'', Log Stderr ''Error executing tool:'']))
         \<and> (truthy (map_of kvs f) \<longrightarrow>
              list_ex is_upstream (snd (slack_CallTool senv
                \<lparr>name = tool_name t, arguments = Some (JObj kvs)\<rparr>))))
       \<and> (t \<in> set (fst fetch_ListTools) \<longrightarrow>
           (map_of kvs f = None \<longrightarrow>
              fetch_CallTool fenv \<lparr>name = tool_name t, arguments = Some (JObj kvs)\<rparr> =
                (Inr (error_result (JsError ''Error'' ''URL is required'')),
                 [Log Stderr ''Received CallToolRequest:'', Log Stderr ''Error executing tool:'']))
         \<and> (truthy (map_of kvs f) \<longrightarrow>
              list_ex is_upstream (snd (fetch_CallTool fenv
                \<lparr>name = tool_name t, arguments = Some (JObj kvs)\<rparr>))))
       \<and> (t \<in> set (fst stdio_bigquery_ListTools) \<longrightarrow>
           (map_of kvs f = None \<longrightarrow>
              stdio_bigquery_CallTool benv \<lparr>name = tool_name t, arguments = Some (JObj kvs)\<rparr> =
                (Inr (error_result (JsError ''Error'' (''Missing required argument: '' @ f))),
                 [Log Stderr ''Received CallToolRequest:'', Log Stderr ''Error executing tool:'']))
         \<and> (truthy (map_of kvs f) \<longrightarrow>
              list_ex is_upstream (snd (stdio_bigquery_CallTool benv
                \<lparr>name = tool_name t, arguments = Some (JObj kvs)\<rparr>))))"
  using assms
    bigquery_rejects_falsy [of t f kvs benv fire signal]
    bigquery_accepts_truthy [of t f kvs benv fire signal]
    slack_rejects_falsy [of t f kvs senv] slack_accepts_truthy [of t f kvs senv]
    fetch_rejects_falsy [of t f kvs fenv] fetch_accepts_truthy [of t f kvs fenv]
    stdio_bigquery_rejects_falsy [of t f kvs benv] stdio_bigquery_accepts_truthy [of t f kvs benv]
  by auto

theorem required_argument_validation_witness:
  \<open>''query'' \<in> set (required executeQueryTool)
   \<and> executeQueryTool \<in> set (fst bigquery_ListTools)
   \<and> bigquery_CallTool sample_bq_env None
        \<lparr>name = ''bigquery_execute_query'', arguments = Some (JObj [])\<rparr> live_signal =
      (Inr (text_result ''{"error":"Missing required argument: query"}''),
       [Log Stderr ''Received CallToolRequest:'', Log Stderr ''Error executing tool:''])
   \<and> truthy (map_of [(''query'', JStr ''SELECT 1'')] ''query'')
   \<and> list_ex is_upstream (snd (bigquery_CallTool sample_bq_env None
        \<lparr>name = ''bigquery_execute_query'',
          arguments = Some (JObj [(''query'', JStr ''SELECT 1'')])\<rparr> live_signal))
   \<and> fetchTool \<in> set (fst fetch_ListTools)
   \<and> fetch_CallTool sample_fetch_env \<lparr>name = ''fetch'', arguments = Some (JObj [])\<rparr> =
      (Inr (text_result ''{"error":"URL is required"}''),
       [Log Stderr ''Received CallToolRequest:'', Log Stderr ''Error executing tool:''])\<close>
proof -
  have q: "''query'' \<in> set (required executeQueryTool)"
    and u: "''url'' \<in> set (required fetchTool)"
    and n: "tool_name executeQueryTool = ''bigquery_execute_query''" "tool_name fetchTool = ''fetch''"
    by (simp_all add: executeQueryTool_def fetchTool_def)
  have b: "executeQueryTool \<in> set (fst bigquery_ListTools)"
    and f: "fetchTool \<in> set (fst fetch_ListTools)"
    by (simp_all add: bigquery_ListTools_def fetch_ListTools_def)
  have m: "map_of [] ''query'' = (None :: json option)" "map_of [] ''url'' = (None :: json option)"
    and s: "truthy (map_of [(''query'', JStr ''SELECT 1'')] ''query'')"
    by simp_all
  from required_argument_validation [OF q, of "[]" sample_bq_env None live_signal] b m(1)
  have 1: "bigquery_CallTool sample_bq_env None
        \<lparr>name = ''bigquery_execute_query'', arguments = Some (JObj [])\<rparr> live_signal =
      (Inr (error_result (JsError ''Error'' (''Missing required argument: '' @ ''query''))),
       [Log Stderr ''Received CallToolRequest:'', Log Stderr ''Error executing tool:''])"
    unfolding n by blast
  from required_argument_validation [OF q, of "[(''query'', JStr ''SELECT 1'')]" sample_bq_env None
      live_signal] b s
  have 2: "list_ex is_upstream (snd (bigquery_CallTool sample_bq_env None
        \<lparr>name = ''bigquery_execute_query'',
          arguments = Some (JObj [(''query'', JStr ''SELECT 1'')])\<rparr> live_signal))"
    unfolding n by blast
  from required_argument_validation [OF u, of "[]" _ _ _ _ sample_fetch_env] f m(2)
  have 3: "fetch_CallTool sample_fetch_env \<lparr>name = ''fetch'', arguments = Some (JObj [])\<rparr> =
      (Inr (error_result (JsError ''Error'' ''URL is required'')),
       [Log Stderr ''Received CallToolRequest:'', Log Stderr ''Error executing tool:''])"
    unfolding n by blast
  from q b s f 1 2 3 show ?thesis
    unfolding missing_query_text url_required_text by blast
qed

text \<open>
  The fetch tool's answer to a request without \<^verbatim>\<open>url\<close> is not the
  \<^verbatim>\<open>Missing required argument\<close> message; and a field that is supplied, but as the empty
  string, does not reach the client.
\<close>

theorem fetch_names_no_field:
  \<open>fst (fetch_CallTool sample_fetch_env \<lparr>name = ''fetch'', arguments = Some (JObj [])\<rparr>) =
     Inr (text_result ''{"error":"URL is required"}'')
   \<and> fst (fetch_CallTool sample_fetch_env \<lparr>name = ''fetch'', arguments = Some (JObj [])\<rparr>) \<noteq>
     Inr (text_result ''{"error":"Missing required argument: url"}'')
   \<and> \<not> list_ex is_upstream (snd (bigquery_CallTool sample_bq_env None
        \<lparr>name = ''bigquery_execute_query'', arguments = Some (JObj [(''query'', JStr [])])\<rparr>
        live_signal))\<close>
  by (simp add: fetch_CallTool_def fetch_try_def bigquery_CallTool_def bigquery_try_def
      url_required_text text_result_def)

text \<open>
  C10. Presence is tested by the truthiness of the field's value: for every registered tool
  of every service and every required field \<open>f\<close>, a request that gives \<open>f\<close> the empty
  string is answered by the tool's validation failure, with no call of the client, and
  the whole outcome (response and trace) is the one of the same request with \<open>f\<close> left out.
\<close>

theorem empty_string_is_missing:
  assumes "f \<in> set (required t)" and "map_of kvs f = Some (JStr [])"
  shows "(t \<in> set (fst bigquery_ListTools) \<longrightarrow>
            bigquery_CallTool benv fire \<lparr>name = tool_name t, arguments = Some (JObj kvs)\<rparr> signal =
              (Inr (error_result (JsError ''Error'' (''Missing required argument: '' @ f))),
               [Log Stderr ''Received CallToolRequest:'', Log Stderr ''Error executing tool:''])
          \<and> bigquery_CallTool benv fire \<lparr>name = tool_name t, arguments = Some (JObj kvs)\<rparr> signal =
            bigquery_CallTool benv fire
              \<lparr>name = tool_name t, arguments = Some (JObj (omit f kvs))\<rparr> signal)
       \<and> (t \<in> set (fst slack_ListTools) \<longrightarrow>
            slack_CallTool senv \<lparr>name = tool_name t, arguments = Some (JObj kvs)\<rparr> =
              (Inr (error_result (JsError ''Error'' (''Missing required argument: '' @ f))),
               [Log Stderr ''Received CallToolRequest:'', Log Stderr ''Error executing tool:''])
          \<and> slack_CallTool senv \<lparr>name = tool_name t, arguments = Some (JObj kvs)\<rparr> =
            slack_CallTool senv \<lparr>name = tool_name t, arguments = Some (JObj (omit f kvs))\<rparr>)
       \<and> (t \<in> set (fst fetch_ListTools) \<longrightarrow>
            fetch_CallTool fenv \<lparr>name = tool_name t, arguments = Some (JObj kvs)\<rparr> =
              (Inr (error_result (JsError ''Error'' ''URL is required'')),
               [Log Stderr ''Received CallToolRequest:'', Log Stderr ''Error executing tool:''])
          \<and> fetch_CallTool fenv \<lparr>name = tool_name t, arguments = Some (JObj kvs)\<rparr> =
            fetch_CallTool fenv \<lparr>name = tool_name t, arguments = Some (JObj (omit f kvs))\<rparr>)
       \<and> (t \<in> set (fst stdio_bigquery_ListTools) \<longrightarrow>
            stdio_bigquery_CallTool benv \<lparr>name = tool_name t, arguments = Some (JObj kvs)\<rparr> =
              (Inr (error_result (JsError ''Error'' (''Missing required argument: '' @ f))),
               [Log Stderr ''Received CallToolRequest:'', Log Stderr ''Error executing tool:''])
          \<and> stdio_bigquery_CallTool benv \<lparr>name = tool_name t, arguments = Some (JObj kvs)\<rparr> =
            stdio_bigquery_CallTool benv
              \<lparr>name = tool_name t, arguments = Some (JObj (omit f kvs))\<rparr>)"
proof -
  have empty: "\<not> truthy (map_of kvs f)"
    using assms(2) by simp
  have omitted: "\<not> truthy (map_of (omit f kvs) f)"
    by (simp add: map_of_omit)
  show ?thesis
    using assms(1)
      bigquery_rejects_falsy [of t f kvs benv fire signal]
      bigquery_rejects_falsy [of t f "omit f kvs" benv fire signal]
      slack_rejects_falsy [of t f kvs senv] slack_rejects_falsy [of t f "omit f kvs" senv]
      fetch_rejects_falsy [of t f kvs fenv] fetch_rejects_falsy [of t f "omit f kvs" fenv]
      stdio_bigquery_rejects_falsy [of t f kvs benv]
      stdio_bigquery_rejects_falsy [of t f "omit f kvs" benv]
      empty omitted
    by simp
qed

theorem empty_string_is_missing_witness:
  \<open>''query'' \<in> set (required executeQueryTool)
   \<and> executeQueryTool \<in> set (fst bigquery_ListTools)
   \<and> map_of [(''query'', JStr [])] ''query'' = Some (JStr [])
   \<and> bigquery_CallTool sample_bq_env None
        \<lparr>name = ''bigquery_execute_query'', arguments = Some (JObj [(''query'', JStr [])])\<rparr>
        live_signal =
      (Inr (text_result ''{"error":"Missing required argument: query"}''),
       [Log Stderr ''Received CallToolRequest:'', Log Stderr ''Error executing tool:''])
   \<and> fetchTool \<in> set (fst fetch_ListTools)
   \<and> fetch_CallTool sample_fetch_env
        \<lparr>name = ''fetch'', arguments = Some (JObj [(''url'', JStr [])])\<rparr> =
      (Inr (text_result ''{"error":"URL is required"}''),
       [Log Stderr ''Received CallToolRequest:'', Log Stderr ''Error executing tool:''])\<close>
proof -
  have q: "''query'' \<in> set (required executeQueryTool)"
    and u: "''url'' \<in> set (required fetchTool)"
    and n: "tool_name executeQueryTool = ''bigquery_execute_query''" "tool_name fetchTool = ''fetch''"
    by (simp_all add: executeQueryTool_def fetchTool_def)
  have b: "executeQueryTool \<in> set (fst bigquery_ListTools)"
    and f: "fetchTool \<in> set (fst fetch_ListTools)"
    by (simp_all add: bigquery_ListTools_def fetch_ListTools_def)
  have m: "map_of [(''query'', JStr [])] ''query'' = Some (JStr [])"
    "map_of [(''url'', JStr [])] ''url'' = Some (JStr [])"
    by simp_all
  from empty_string_is_missing [OF q m(1), of sample_bq_env None live_signal] b
  have 1: "bigquery_CallTool sample_bq_env None
        \<lparr>name = ''bigquery_execute_query'', arguments = Some (JObj [(''query'', JStr [])])\<rparr>
        live_signal =
      (Inr (error_result (JsError ''Error'' (''Missing required argument: '' @ ''query''))),
       [Log Stderr ''Received CallToolRequest:'', Log Stderr ''Error executing tool:''])"
    unfolding n by blast
  from empty_string_is_missing [OF u m(2), of _ _ _ _ sample_fetch_env] f
  have 2: "fetch_CallTool sample_fetch_env
        \<lparr>name = ''fetch'', arguments = Some (JObj [(''url'', JStr [])])\<rparr> =
      (Inr (error_result (JsError ''Error'' ''URL is required'')),
       [Log Stderr ''Received CallToolRequest:'', Log Stderr ''Error executing tool:''])"
    unfolding n by blast
  from q b m(1) f 1 2 show ?thesis
    unfolding missing_query_text url_required_text by blast
qed

subsection \<open>Cancellation of \<^verbatim>\<open>bigquery_execute_query\<close>\<close>

lemma executeQuery_aborted_at_entry:
  assumes "aborted s"
  shows "executeQuery env fire q (Some s) =
     (case createQueryJob env q False of
        Inl err \<Rightarrow> (executeQuery_catch err, Some s, [CreateQueryJob q False])
      | Inr j \<Rightarrow>
          (case job_cancel env (job_id j) of
             Some err \<Rightarrow> executeQuery_catch err
           | None \<Rightarrow> JObj [(''success'', JBool False), (''error'', JStr ''Request was cancelled''),
                            (''jobId'', job_id j)],
           Some s, [CreateQueryJob q False, JobCancel (job_id j)]))"
  using assms
  by (simp add: executeQuery_def dispatch_abort_def signal_aborted_def cancelled_response_def
      split: sum.splits option.splits)

text \<open>
  C1, as the code has it. \<^verbatim>\<open>executeQuery\<close> reads \<^verbatim>\<open>signal.aborted\<close> only after
  \<^verbatim>\<open>createQueryJob\<close> has resolved. So when the signal is already aborted as the handler
  starts, the handler still asks the upstream to create the query job, once and first.
  It adds no listener and never waits for the results. When the job is created it asks
  the upstream to cancel that job, once, and, when that request is accepted, the response
  is a normal envelope whose text is the serialization of
  \<^verbatim>\<open>{success: false, error: "Request was cancelled", jobId}\<close>. When the job is not
  created, the request to create it is the only upstream call.
\<close>

theorem aborted_before_start:
  assumes "aborted signal"
    and "name request = ''bigquery_execute_query''"
    and "opt_prop (arguments request) ''query'' = Some q" and "truthy (Some q)"
  shows "take 2 (snd (bigquery_CallTool env fire request signal)) =
           [Log Stderr ''Received CallToolRequest:'', CreateQueryJob q False]
       \<and> AddEventListener \<notin> set (snd (bigquery_CallTool env fire request signal))
       \<and> GetQueryResults i \<notin> set (snd (bigquery_CallTool env fire request signal))
       \<and> (createQueryJob env q False = Inr j \<longrightarrow>
            snd (bigquery_CallTool env fire request signal) =
              [Log Stderr ''Received CallToolRequest:'', CreateQueryJob q False,
               JobCancel (job_id j)]
            \<and> (job_cancel env (job_id j) = None \<longrightarrow>
                 fst (bigquery_CallTool env fire request signal) =
                   Inr (text_result (JSON_stringify
                     (JObj [(''success'', JBool False),
                            (''error'', JStr ''Request was cancelled''),
                            (''jobId'', job_id j)])))))
       \<and> (createQueryJob env q False = Inl e \<longrightarrow>
            snd (bigquery_CallTool env fire request signal) =
              [Log Stderr ''Received CallToolRequest:'', CreateQueryJob q False])"
proof -
  have args: "truthy (arguments request)"
    using assms(3) by (rule opt_prop_Some_truthy)
  have body: "bigquery_try env fire request signal =
      (case executeQuery env fire q (Some signal) of
         (response, sig', evs) \<Rightarrow> (Inr (text_result (JSON_stringify response)), evs))"
    using assms args by (simp add: bigquery_try_def)
  show ?thesis
    unfolding bigquery_CallTool_def body executeQuery_aborted_at_entry [OF assms(1)]
    by (simp split: sum.splits option.splits)
qed

theorem aborted_before_start_witness:
  \<open>aborted aborted_signal
   \<and> bigquery_CallTool sample_bq_env None
       \<lparr>name = ''bigquery_execute_query'', arguments = Some (JObj [(''query'', JStr ''SELECT 1'')])\<rparr>
       aborted_signal =
     (Inr (text_result ''{"success":false,"error":"Request was cancelled","jobId":"job_1"}''),
      [Log Stderr ''Received CallToolRequest:'', CreateQueryJob (JStr ''SELECT 1'') False,
       JobCancel (JStr ''job_1'')])\<close>
proof -
  let ?request = "\<lparr>name = ''bigquery_execute_query'',
                   arguments = Some (JObj [(''query'', JStr ''SELECT 1'')])\<rparr>"
  let ?j = "\<lparr>job_id = JStr ''job_1'', metadata = None\<rparr>"
  have a: "aborted aborted_signal"
    by (simp add: aborted_signal_def)
  have n: "name ?request = ''bigquery_execute_query''"
    and q: "opt_prop (arguments ?request) ''query'' = Some (JStr ''SELECT 1'')"
    and t: "truthy (Some (JStr ''SELECT 1''))"
    by simp_all
  have c: "createQueryJob sample_bq_env (JStr ''SELECT 1'') False = Inr ?j"
    and d: "job_cancel sample_bq_env (job_id ?j) = None"
    by (simp_all add: sample_bq_env_def)
  have s: \<open>JSON_stringify (JObj [(''success'', JBool False),
              (''error'', JStr ''Request was cancelled''), (''jobId'', job_id ?j)]) =
            ''{"success":false,"error":"Request was cancelled","jobId":"job_1"}''\<close>
    by (simp add: quote_def quote_char_def)
  from aborted_before_start [OF a n q t, of sample_bq_env None undefined ?j] c d
  have "snd (bigquery_CallTool sample_bq_env None ?request aborted_signal) =
          [Log Stderr ''Received CallToolRequest:'', CreateQueryJob (JStr ''SELECT 1'') False,
           JobCancel (job_id ?j)]
      \<and> fst (bigquery_CallTool sample_bq_env None ?request aborted_signal) =
          Inr (text_result (JSON_stringify (JObj [(''success'', JBool False),
              (''error'', JStr ''Request was cancelled''), (''jobId'', job_id ?j)])))"
    by blast
  then show ?thesis
    unfolding s using a by (simp add: prod_eq_iff)
qed

text \<open>
  A request whose signal is aborted from the start: the job is created all the same, and
  the response is not the envelope \<^verbatim>\<open>{"error":"Request was cancelled"}\<close>.
\<close>

theorem aborted_request_still_starts_job:
  \<open>CreateQueryJob (JStr ''SELECT 1'') False \<in> set (snd (bigquery_CallTool sample_bq_env None
       \<lparr>name = ''bigquery_execute_query'', arguments = Some (JObj [(''query'', JStr ''SELECT 1'')])\<rparr>
       aborted_signal))
   \<and> fst (bigquery_CallTool sample_bq_env None
       \<lparr>name = ''bigquery_execute_query'', arguments = Some (JObj [(''query'', JStr ''SELECT 1'')])\<rparr>
       aborted_signal) \<noteq> Inr (error_result (JsError ''Error'' ''Request was cancelled''))\<close>
  by (simp add: bigquery_CallTool_def bigquery_try_def executeQuery_def sample_bq_env_def
      aborted_signal_def signal_aborted_def cancelled_response_def text_result_def error_result_def
      quote_def quote_char_def)

lemma onAbort_cancels_once: "filter is_job_cancel (onAbort env j) = [JobCancel (job_id j)]"
  by (simp add: onAbort_def split: option.splits)

lemma onAbort_no_listener_calls:
  "count_list (onAbort env j) AddEventListener = 0"
  "count_list (onAbort env j) RemoveEventListener = 0"
  by (simp_all add: onAbort_def split: option.splits)

lemma count_list_append: "count_list (xs @ ys) x = count_list xs x + count_list ys x"
  by (induction xs) simp_all

lemma await_results_live:
  assumes "\<not> aborted s"
  shows "await_results env j fires (Some s) =
           (Some \<lparr>aborted = fires, listening = False\<rparr>,
            [AddEventListener, GetQueryResults (job_id j)]
              @ (if fires then onAbort env j else []) @ [RemoveEventListener])"
  using assms
  by (cases s) (simp add: await_results_def dispatch_abort_def addEventListener_def removeEventListener_def)

lemma abort_without_job:
  "createQueryJob env q False = Inl e \<Longrightarrow>
     snd (snd (executeQuery env fire q signal)) = [CreateQueryJob q False]"
  by (simp add: executeQuery_def Let_def)

lemma cancellation_with_job:
  assumes "createQueryJob env q False = Inr j" and "\<not> aborted s"
  shows "filter is_job_cancel (snd (snd (executeQuery env (Some WhileAwaitingResults) q (Some s)))) =
           [JobCancel (job_id j)]
       \<and> count_list (snd (snd (executeQuery env (Some WhileAwaitingResults) q (Some s)))) AddEventListener = 1
       \<and> count_list (snd (snd (executeQuery env (Some WhileAwaitingResults) q (Some s)))) RemoveEventListener = 1
       \<and> fst (snd (executeQuery env (Some WhileAwaitingResults) q (Some s))) =
           Some \<lparr>aborted = True, listening = False\<rparr>
       \<and> filter is_job_cancel (snd (snd (executeQuery env None q (Some s)))) = []
       \<and> count_list (snd (snd (executeQuery env None q (Some s)))) AddEventListener = 1
       \<and> count_list (snd (snd (executeQuery env None q (Some s)))) RemoveEventListener = 1
       \<and> fst (snd (executeQuery env None q (Some s))) = Some \<lparr>aborted = False, listening = False\<rparr>
       \<and> filter is_job_cancel (snd (snd (executeQuery env (Some WhileCreatingJob) q (Some s)))) =
           [JobCancel (job_id j)]
       \<and> count_list (snd (snd (executeQuery env (Some WhileCreatingJob) q (Some s)))) AddEventListener = 0
       \<and> count_list (snd (snd (executeQuery env (Some WhileCreatingJob) q (Some s)))) RemoveEventListener = 0"
proof -
  have during: "snd (snd (executeQuery env (Some WhileAwaitingResults) q (Some s))) =
      [CreateQueryJob q False, AddEventListener, GetQueryResults (job_id j)]
        @ onAbort env j @ [RemoveEventListener]"
    and during_sig: "fst (snd (executeQuery env (Some WhileAwaitingResults) q (Some s))) =
      Some \<lparr>aborted = True, listening = False\<rparr>"
    using assms
    by (simp_all add: executeQuery_def signal_aborted_def await_results_live split: sum.splits)
  have never: "snd (snd (executeQuery env None q (Some s))) =
      [CreateQueryJob q False, AddEventListener, GetQueryResults (job_id j), RemoveEventListener]"
    and never_sig: "fst (snd (executeQuery env None q (Some s))) =
      Some \<lparr>aborted = False, listening = False\<rparr>"
    using assms
    by (simp_all add: executeQuery_def signal_aborted_def await_results_live split: sum.splits)
  have creating: "snd (snd (executeQuery env (Some WhileCreatingJob) q (Some s))) =
      [CreateQueryJob q False, JobCancel (job_id j)]"
    using assms
    by (simp add: executeQuery_def Let_def signal_aborted_def dispatch_abort_def split: sum.splits option.splits)
  show ?thesis
    unfolding during during_sig never never_sig creating
    by (simp add: onAbort_cancels_once onAbort_no_listener_calls count_list_append)
qed

text \<open>
  C3, as the code has it. Take a call of \<^verbatim>\<open>executeQuery\<close> whose signal is not aborted at
  the start. When the job is created and the client aborts while the results are awaited,
  the listener asks the upstream to cancel the job, and that is the only cancellation
  request of the call; the listener is added once and \<^verbatim>\<open>removeEventListener\<close> is called
  once, whether the client aborts during the wait or never, and whatever
  \<^verbatim>\<open>getQueryResults\<close> and \<^verbatim>\<open>job.cancel\<close> answer; the signal is left without the listener.
  When the client aborts earlier, while \<^verbatim>\<open>createQueryJob\<close> is awaited, and the job is
  created, the one cancellation request is made directly and no listener is ever added
  or removed. When \<^verbatim>\<open>createQueryJob\<close> fails, whenever the client aborts, the request to
  create the job is the only thing the call does: no cancellation is requested and no
  listener is added or removed.
\<close>

theorem cancellation_after_start:
  assumes "\<not> aborted s"
  shows "(createQueryJob env q False = Inr j \<longrightarrow>
         filter is_job_cancel (snd (snd (executeQuery env (Some WhileAwaitingResults) q (Some s)))) =
               [JobCancel (job_id j)]
           \<and> count_list (snd (snd (executeQuery env (Some WhileAwaitingResults) q (Some s)))) AddEventListener = 1
           \<and> count_list (snd (snd (executeQuery env (Some WhileAwaitingResults) q (Some s)))) RemoveEventListener = 1
           \<and> fst (snd (executeQuery env (Some WhileAwaitingResults) q (Some s))) =
               Some \<lparr>aborted = True, listening = False\<rparr>
           \<and> filter is_job_cancel (snd (snd (executeQuery env None q (Some s)))) = []
           \<and> count_list (snd (snd (executeQuery env None q (Some s)))) AddEventListener = 1
           \<and> count_list (snd (snd (executeQuery env None q (Some s)))) RemoveEventListener = 1
           \<and> fst (snd (executeQuery env None q (Some s))) = Some \<lparr>aborted = False, listening = False\<rparr>
           \<and> filter is_job_cancel (snd (snd (executeQuery env (Some WhileCreatingJob) q (Some s)))) =
               [JobCancel (job_id j)]
           \<and> count_list (snd (snd (executeQuery env (Some WhileCreatingJob) q (Some s)))) AddEventListener = 0
           \<and> count_list (snd (snd (executeQuery env (Some WhileCreatingJob) q (Some s)))) RemoveEventListener = 0)
       \<and> (createQueryJob env q False = Inl e \<longrightarrow>
            snd (snd (executeQuery env fire q (Some s))) = [CreateQueryJob q False])"
  using assms cancellation_with_job [of env q j s] abort_without_job [of env q e fire "Some s"]
  by blast

theorem cancellation_after_start_witness:
  "\<not> aborted live_signal
   \<and> filter is_job_cancel (snd (snd (executeQuery sample_bq_env (Some WhileAwaitingResults)
        (JStr ''SELECT 1'') (Some live_signal)))) = [JobCancel (JStr ''job_1'')]
   \<and> filter is_job_cancel (snd (snd (executeQuery cancelled_results_env (Some WhileAwaitingResults)
        (JStr ''SELECT 1'') (Some live_signal)))) = [JobCancel (JStr ''job_1'')]
   \<and> count_list (snd (snd (executeQuery cancelled_results_env (Some WhileAwaitingResults)
        (JStr ''SELECT 1'') (Some live_signal)))) RemoveEventListener = 1
   \<and> count_list (snd (snd (executeQuery sample_bq_env None
        (JStr ''SELECT 1'') (Some live_signal)))) RemoveEventListener = 1
   \<and> snd (snd (executeQuery rejecting_bq_env (Some WhileAwaitingResults)
        (JStr ''SELECT 1'') (Some live_signal))) = [CreateQueryJob (JStr ''SELECT 1'') False]"
proof -
  let ?j = "\<lparr>job_id = JStr ''job_1'', metadata = None\<rparr>"
  have c: "createQueryJob sample_bq_env (JStr ''SELECT 1'') False = Inr ?j"
    and c': "createQueryJob cancelled_results_env (JStr ''SELECT 1'') False = Inr ?j"
    and r: "createQueryJob rejecting_bq_env (JStr ''SELECT 1'') False =
              Inl (JsError ''ApiError'' ''Syntax error'')"
    by (simp_all add: sample_bq_env_def cancelled_results_env_def rejecting_bq_env_def)
  have l: "\<not> aborted live_signal"
    by (simp add: live_signal_def)
  from cancellation_after_start [OF l, where env = sample_bq_env and q = "JStr ''SELECT 1''"
      and j = ?j] c
  have 1: "filter is_job_cancel (snd (snd (executeQuery sample_bq_env (Some WhileAwaitingResults)
        (JStr ''SELECT 1'') (Some live_signal)))) = [JobCancel (job_id ?j)]
    \<and> count_list (snd (snd (executeQuery sample_bq_env None
        (JStr ''SELECT 1'') (Some live_signal)))) RemoveEventListener = 1"
    by blast
  from cancellation_after_start [OF l, where env = cancelled_results_env
      and q = "JStr ''SELECT 1''" and j = ?j] c'
  have 2: "filter is_job_cancel (snd (snd (executeQuery cancelled_results_env
        (Some WhileAwaitingResults) (JStr ''SELECT 1'') (Some live_signal)))) = [JobCancel (job_id ?j)]
    \<and> count_list (snd (snd (executeQuery cancelled_results_env (Some WhileAwaitingResults)
        (JStr ''SELECT 1'') (Some live_signal)))) RemoveEventListener = 1"
    by blast
  from cancellation_after_start [OF l, where env = rejecting_bq_env and q = "JStr ''SELECT 1''"
      and e = "JsError ''ApiError'' ''Syntax error''" and fire = "Some WhileAwaitingResults"] r
  have 3: "snd (snd (executeQuery rejecting_bq_env (Some WhileAwaitingResults)
        (JStr ''SELECT 1'') (Some live_signal))) = [CreateQueryJob (JStr ''SELECT 1'') False]"
    by blast
  from l 1 2 3 show ?thesis
    by simp
qed

text \<open>
  A signal that is not aborted at the start, and a client that aborts while
  \<^verbatim>\<open>createQueryJob\<close> is awaited. When the job is created, it is cancelled directly and
  \<^verbatim>\<open>removeEventListener\<close> is never called; when the creation fails, no cancellation is
  requested at all.
\<close>

theorem abort_while_creating_job:
  "snd (snd (executeQuery sample_bq_env (Some WhileCreatingJob) (JStr ''SELECT 1'')
       (Some live_signal))) =
     [CreateQueryJob (JStr ''SELECT 1'') False, JobCancel (JStr ''job_1'')]
   \<and> count_list (snd (snd (executeQuery sample_bq_env (Some WhileCreatingJob) (JStr ''SELECT 1'')
       (Some live_signal)))) RemoveEventListener = 0
   \<and> snd (snd (executeQuery rejecting_bq_env (Some WhileCreatingJob) (JStr ''SELECT 1'')
       (Some live_signal))) =
     [CreateQueryJob (JStr ''SELECT 1'') False]
   \<and> filter is_job_cancel (snd (snd (executeQuery rejecting_bq_env (Some WhileCreatingJob)
       (JStr ''SELECT 1'') (Some live_signal)))) = []"
  by (simp add: executeQuery_def Let_def sample_bq_env_def rejecting_bq_env_def live_signal_def
      dispatch_abort_def signal_aborted_def)

subsection \<open>Failures of a tool call\<close>

lemma CallTool_envelope:
  "\<exists>s. fst (bigquery_CallTool benv fire request signal) = Inr (text_result s)"
  "\<exists>s. fst (fetch_CallTool fenv request) = Inr (text_result s)"
  "\<exists>s. fst (slack_CallTool senv request) = Inr (text_result s)"
  "\<exists>s. fst (stdio_bigquery_CallTool benv request) = Inr (text_result s)"
  by (auto simp add: bigquery_CallTool_def bigquery_try_def fetch_CallTool_def fetch_try_def
      slack_CallTool_def slack_try_def stdio_bigquery_CallTool_def stdio_bigquery_try_def
      error_result_def Let_def split_beta split: sum.splits)

lemma CallTool_catch:
  "fst (bigquery_try benv fire request signal) = Inl e \<Longrightarrow>
     fst (bigquery_CallTool benv fire request signal) = Inr (error_result e)"
  "fst (fetch_try fenv request) = Inl e \<Longrightarrow> fst (fetch_CallTool fenv request) = Inr (error_result e)"
  "fst (slack_try senv request) = Inl e \<Longrightarrow> fst (slack_CallTool senv request) = Inr (error_result e)"
  "fst (stdio_bigquery_try benv request) = Inl e \<Longrightarrow>
     fst (stdio_bigquery_CallTool benv request) = Inr (error_result e)"
  by (simp_all add: bigquery_CallTool_def fetch_CallTool_def slack_CallTool_def
      stdio_bigquery_CallTool_def split_beta split: sum.splits)

lemma unknown_tool:
  assumes "truthy (arguments request)"
  shows "name request \<notin> tool_name ` set (fst bigquery_ListTools) \<Longrightarrow>
           fst (bigquery_CallTool benv fire request signal) =
             Inr (error_result (JsError ''Error'' (''Unknown tool: '' @ name request)))"
    and "name request \<notin> tool_name ` set (fst fetch_ListTools) \<Longrightarrow>
           fst (fetch_CallTool fenv request) =
             Inr (error_result (JsError ''Error'' (''Unknown tool: '' @ name request)))"
    and "name request \<notin> tool_name ` set (fst slack_ListTools) \<Longrightarrow>
           fst (slack_CallTool senv request) =
             Inr (error_result (JsError ''Error'' (''Unknown tool: '' @ name request)))"
  using assms
  by (simp_all add: bigquery_CallTool_def bigquery_try_def fetch_CallTool_def fetch_try_def
      slack_CallTool_def slack_try_def bigquery_ListTools_def fetch_ListTools_def slack_ListTools_def
      executeQueryTool_def dryRunQueryTool_def getJobTool_def cancelJobTool_def fetchTool_def
      getUserProfileTool_def)

lemma fetch_upstream_failure:
  assumes "name request = ''fetch''" and "opt_prop (arguments request) ''url'' = Some u"
    and "truthy (Some u)" and "fetch fenv u = Inl e"
  shows "fst (fetch_CallTool fenv request) =
           Inr (text_result (JSON_stringify (JObj [(''error'',
             JStr (''Failed to fetch '' @ js_String u @ '': '' @ error_toString e))])))"
  using assms opt_prop_Some_truthy [OF assms(2)]
  by (simp add: fetch_CallTool_def fetch_try_def fetchUrl_def fetchUrl_rethrow_def error_result_def)

lemma slack_upstream_failure:
  assumes "name request = ''slack_get_user_profile''"
    and "opt_prop (arguments request) ''user_id'' = Some u"
    and "truthy (Some u)" and "users_profile_get senv u = Inl e"
  shows "fst (slack_CallTool senv request) =
           Inr (text_result (JSON_stringify (JObj [(''error'', JStr (error_message e))])))"
  using assms opt_prop_Some_truthy [OF assms(2)]
  by (simp add: slack_CallTool_def slack_try_def getUserProfile_def error_result_def)

lemma executeQuery_create_fails:
  "createQueryJob benv q False = Inl e \<Longrightarrow>
     fst (executeQuery benv fire q signal) = executeQuery_catch e"
  by (simp add: executeQuery_def Let_def)

lemma executeQuery_results_fail:
  assumes "createQueryJob benv q False = Inr j" and "getQueryResults benv (job_id j) = Inl e"
    and "\<not> aborted s" and "fire \<noteq> Some WhileCreatingJob"
  shows "fst (executeQuery benv fire q (Some s)) = executeQuery_catch e"
  using assms
  by (simp add: executeQuery_def Let_def signal_aborted_def split_beta)

lemma executeQuery_cancel_fails:
  assumes "createQueryJob benv q False = Inr j" and "job_cancel benv (job_id j) = Some e"
    and "aborted s \<or> fire = Some WhileCreatingJob"
  shows "fst (executeQuery benv fire q (Some s)) = executeQuery_catch e"
  using assms
  by (auto simp add: executeQuery_def Let_def signal_aborted_def dispatch_abort_def)

lemma executeQuery_catch_payload:
  "executeQuery_catch e =
     JObj [(''success'', JBool False),
           (''error'', JStr (if is_AbortError e then ''Request was cancelled'' else error_message e))]"
  by (simp add: executeQuery_catch_def cancelled_response_def failure_response_def)

lemma bigquery_execute_failure:
  assumes "name request = ''bigquery_execute_query''"
    and "opt_prop (arguments request) ''query'' = Some q" and "truthy (Some q)"
    and "createQueryJob benv q False = Inl e
         \<or> (\<exists>j. createQueryJob benv q False = Inr j \<and> getQueryResults benv (job_id j) = Inl e
               \<and> \<not> aborted signal \<and> fire \<noteq> Some WhileCreatingJob)
         \<or> (\<exists>j. createQueryJob benv q False = Inr j \<and> job_cancel benv (job_id j) = Some e
               \<and> (aborted signal \<or> fire = Some WhileCreatingJob))"
  shows "fst (bigquery_CallTool benv fire request signal) =
           Inr (text_result (JSON_stringify (JObj [(''success'', JBool False),
             (''error'', JStr (if is_AbortError e then ''Request was cancelled''
                               else error_message e))])))"
proof -
  have "fst (executeQuery benv fire q (Some signal)) = executeQuery_catch e"
    using assms(4) executeQuery_create_fails [of benv q e fire "Some signal"]
      executeQuery_results_fail [of benv q _ e signal fire]
      executeQuery_cancel_fails [of benv q _ e signal fire]
    by blast
  then show ?thesis
    using assms(1-3) opt_prop_Some_truthy [OF assms(2)]
    by (simp add: bigquery_CallTool_def bigquery_try_def split_beta executeQuery_catch_payload)
qed

lemma stdio_bigquery_failures:
  assumes "opt_prop (arguments request) ''query'' = Some v" and "truthy (Some v)"
  shows "name request = ''bigquery_execute_query''
           \<and> (createQueryJob benv v False = Inl e
               \<or> (\<exists>j. createQueryJob benv v False = Inr j \<and> getQueryResults benv (job_id j) = Inl e))
         \<or> name request = ''bigquery_dry_run_query'' \<and> createQueryJob benv v True = Inl e
       \<Longrightarrow> fst (stdio_bigquery_CallTool benv request) =
           Inr (text_result (JSON_stringify (JObj [(''success'', JBool False),
             (''error'', JStr (error_message e))])))"
  using assms opt_prop_Some_truthy [OF assms(1)]
  by (auto simp add: stdio_bigquery_CallTool_def stdio_bigquery_try_def stdio_executeQuery_def
      dryRunQuery_def failure_response_def)

lemma bigquery_other_failures:
  assumes "opt_prop (arguments request) k = Some v" and "truthy (Some v)"
  shows "name request = ''bigquery_dry_run_query'' \<and> k = ''query'' \<and> createQueryJob benv v True = Inl e
         \<or> name request = ''bigquery_get_job'' \<and> k = ''jobId'' \<and> getMetadata benv v = Inl e
         \<or> name request = ''bigquery_cancel_job'' \<and> k = ''jobId''
            \<and> (job_cancel benv v = Some e \<or> job_cancel benv v = None \<and> getMetadata benv v = Inl e)
       \<Longrightarrow> fst (bigquery_CallTool benv fire request signal) =
           Inr (text_result (JSON_stringify (JObj [(''success'', JBool False),
             (''error'', JStr (error_message e))])))"
  using assms opt_prop_Some_truthy [OF assms(1)]
  by (auto simp add: bigquery_CallTool_def bigquery_try_def dryRunQuery_def getJob_def cancelJob_def
      failure_response_def)

text \<open>
  C5, as the code has it. Every call-tool invocation, of every service, returns a
  normal response with exactly one text block; nothing is thrown to the protocol layer.
  Whatever the \<^verbatim>\<open>try\<close> block of a handler throws (no arguments, an unknown tool, a missing
  argument, or an error out of the fetch or the template client) is reported as the
  serialization of \<^verbatim>\<open>{error: message}\<close>; for a failed fetch the message is
  \<^verbatim>\<open>Failed to fetch <url>: <error>\<close>. A failure of the BigQuery API does not reach that
  \<^verbatim>\<open>catch\<close>: the client catches it and returns an object, so the text is the serialization
  of \<^verbatim>\<open>{success: false, error: message}\<close>, with the upstream's message, or, in
  \<^verbatim>\<open>executeQuery\<close>, \<^verbatim>\<open>Request was cancelled\<close> when the error is an \<^verbatim>\<open>AbortError\<close>.
\<close>

theorem failures_reported_in_envelope:
  "(\<exists>s. fst (bigquery_CallTool benv fire request signal) = Inr (text_result s))
   \<and> (\<exists>s. fst (fetch_CallTool fenv request) = Inr (text_result s))
   \<and> (\<exists>s. fst (slack_CallTool senv request) = Inr (text_result s))
   \<and> (\<exists>s. fst (stdio_bigquery_CallTool benv request) = Inr (text_result s))
   \<and> (fst (bigquery_try benv fire request signal) = Inl e \<longrightarrow>
        fst (bigquery_CallTool benv fire request signal) =
          Inr (text_result (JSON_stringify (JObj [(''error'', JStr (error_message e))]))))
   \<and> (fst (fetch_try fenv request) = Inl e \<longrightarrow>
        fst (fetch_CallTool fenv request) =
          Inr (text_result (JSON_stringify (JObj [(''error'', JStr (error_message e))]))))
   \<and> (fst (slack_try senv request) = Inl e \<longrightarrow>
        fst (slack_CallTool senv request) =
          Inr (text_result (JSON_stringify (JObj [(''error'', JStr (error_message e))]))))
   \<and> (fst (stdio_bigquery_try benv request) = Inl e \<longrightarrow>
        fst (stdio_bigquery_CallTool benv request) =
          Inr (text_result (JSON_stringify (JObj [(''error'', JStr (error_message e))]))))
   \<and> (name request = ''fetch'' \<and> opt_prop (arguments request) ''url'' = Some v
        \<and> truthy (Some v) \<and> fetch fenv v = Inl e \<longrightarrow>
        fst (fetch_CallTool fenv request) =
          Inr (text_result (JSON_stringify (JObj [(''error'',
            JStr (''Failed to fetch '' @ js_String v @ '': '' @ error_toString e))]))))
   \<and> (name request = ''slack_get_user_profile'' \<and> opt_prop (arguments request) ''user_id'' = Some v
        \<and> truthy (Some v) \<and> users_profile_get senv v = Inl e \<longrightarrow>
        fst (slack_CallTool senv request) =
          Inr (text_result (JSON_stringify (JObj [(''error'', JStr (error_message e))]))))
   \<and> (name request = ''bigquery_execute_query'' \<and> opt_prop (arguments request) ''query'' = Some v
        \<and> truthy (Some v)
        \<and> (createQueryJob benv v False = Inl e
            \<or> (\<exists>j. createQueryJob benv v False = Inr j \<and> getQueryResults benv (job_id j) = Inl e
                  \<and> \<not> aborted signal \<and> fire \<noteq> Some WhileCreatingJob)
            \<or> (\<exists>j. createQueryJob benv v False = Inr j \<and> job_cancel benv (job_id j) = Some e
                  \<and> (aborted signal \<or> fire = Some WhileCreatingJob))) \<longrightarrow>
        fst (bigquery_CallTool benv fire request signal) =
          Inr (text_result (JSON_stringify (JObj [(''success'', JBool False),
            (''error'', JStr (if is_AbortError e then ''Request was cancelled''
                              else error_message e))]))))
   \<and> (opt_prop (arguments request) k = Some v \<and> truthy (Some v)
        \<and> (name request = ''bigquery_dry_run_query'' \<and> k = ''query''
              \<and> createQueryJob benv v True = Inl e
            \<or> name request = ''bigquery_get_job'' \<and> k = ''jobId'' \<and> getMetadata benv v = Inl e
            \<or> name request = ''bigquery_cancel_job'' \<and> k = ''jobId''
              \<and> (job_cancel benv v = Some e
                  \<or> job_cancel benv v = None \<and> getMetadata benv v = Inl e)) \<longrightarrow>
        fst (bigquery_CallTool benv fire request signal) =
          Inr (text_result (JSON_stringify (JObj [(''success'', JBool False),
            (''error'', JStr (error_message e))]))))
   \<and> (opt_prop (arguments request) ''query'' = Some v \<and> truthy (Some v)
        \<and> (name request = ''bigquery_execute_query''
              \<and> (createQueryJob benv v False = Inl e
                  \<or> (\<exists>j. createQueryJob benv v False = Inr j
                        \<and> getQueryResults benv (job_id j) = Inl e))
            \<or> name request = ''bigquery_dry_run_query''
              \<and> createQueryJob benv v True = Inl e) \<longrightarrow>
        fst (stdio_bigquery_CallTool benv request) =
          Inr (text_result (JSON_stringify (JObj [(''success'', JBool False),
            (''error'', JStr (error_message e))]))))"
proof (intro conjI impI)
  show "\<exists>s. fst (bigquery_CallTool benv fire request signal) = Inr (text_result s)"
    "\<exists>s. fst (fetch_CallTool fenv request) = Inr (text_result s)"
    "\<exists>s. fst (slack_CallTool senv request) = Inr (text_result s)"
    "\<exists>s. fst (stdio_bigquery_CallTool benv request) = Inr (text_result s)"
    by (rule CallTool_envelope)+
next
  assume "fst (stdio_bigquery_try benv request) = Inl e"
  then show "fst (stdio_bigquery_CallTool benv request) =
      Inr (text_result (JSON_stringify (JObj [(''error'', JStr (error_message e))])))"
    by (simp add: CallTool_catch error_result_payload)
next
  assume "opt_prop (arguments request) ''query'' = Some v \<and> truthy (Some v)
        \<and> (name request = ''bigquery_execute_query''
              \<and> (createQueryJob benv v False = Inl e
                  \<or> (\<exists>j. createQueryJob benv v False = Inr j
                        \<and> getQueryResults benv (job_id j) = Inl e))
            \<or> name request = ''bigquery_dry_run_query''
              \<and> createQueryJob benv v True = Inl e)"
  then show "fst (stdio_bigquery_CallTool benv request) =
          Inr (text_result (JSON_stringify (JObj [(''success'', JBool False),
            (''error'', JStr (error_message e))])))"
    using stdio_bigquery_failures [of request v benv e] by blast
next
  assume "fst (bigquery_try benv fire request signal) = Inl e"
  then show "fst (bigquery_CallTool benv fire request signal) =
      Inr (text_result (JSON_stringify (JObj [(''error'', JStr (error_message e))])))"
    by (simp add: CallTool_catch error_result_payload)
next
  assume "fst (fetch_try fenv request) = Inl e"
  then show "fst (fetch_CallTool fenv request) =
      Inr (text_result (JSON_stringify (JObj [(''error'', JStr (error_message e))])))"
    by (simp add: CallTool_catch error_result_payload)
next
  assume "fst (slack_try senv request) = Inl e"
  then show "fst (slack_CallTool senv request) =
      Inr (text_result (JSON_stringify (JObj [(''error'', JStr (error_message e))])))"
    by (simp add: CallTool_catch error_result_payload)
next
  assume "name request = ''fetch'' \<and> opt_prop (arguments request) ''url'' = Some v
        \<and> truthy (Some v) \<and> fetch fenv v = Inl e"
  then show "fst (fetch_CallTool fenv request) =
          Inr (text_result (JSON_stringify (JObj [(''error'',
            JStr (''Failed to fetch '' @ js_String v @ '': '' @ error_toString e))])))"
    using fetch_upstream_failure by blast
next
  assume "name request = ''slack_get_user_profile'' \<and> opt_prop (arguments request) ''user_id'' = Some v
        \<and> truthy (Some v) \<and> users_profile_get senv v = Inl e"
  then show "fst (slack_CallTool senv request) =
          Inr (text_result (JSON_stringify (JObj [(''error'', JStr (error_message e))])))"
    using slack_upstream_failure by blast
next
  assume "name request = ''bigquery_execute_query'' \<and> opt_prop (arguments request) ''query'' = Some v
        \<and> truthy (Some v)
        \<and> (createQueryJob benv v False = Inl e
            \<or> (\<exists>j. createQueryJob benv v False = Inr j \<and> getQueryResults benv (job_id j) = Inl e
                  \<and> \<not> aborted signal \<and> fire \<noteq> Some WhileCreatingJob)
            \<or> (\<exists>j. createQueryJob benv v False = Inr j \<and> job_cancel benv (job_id j) = Some e
                  \<and> (aborted signal \<or> fire = Some WhileCreatingJob)))"
  then show "fst (bigquery_CallTool benv fire request signal) =
          Inr (text_result (JSON_stringify (JObj [(''success'', JBool False),
            (''error'', JStr (if is_AbortError e then ''Request was cancelled''
                              else error_message e))])))"
    using bigquery_execute_failure [of request v benv e signal fire] by blast
next
  assume "opt_prop (arguments request) k = Some v \<and> truthy (Some v)
        \<and> (name request = ''bigquery_dry_run_query'' \<and> k = ''query''
              \<and> createQueryJob benv v True = Inl e
            \<or> name request = ''bigquery_get_job'' \<and> k = ''jobId'' \<and> getMetadata benv v = Inl e
            \<or> name request = ''bigquery_cancel_job'' \<and> k = ''jobId''
              \<and> (job_cancel benv v = Some e
                  \<or> job_cancel benv v = None \<and> getMetadata benv v = Inl e))"
  then show "fst (bigquery_CallTool benv fire request signal) =
          Inr (text_result (JSON_stringify (JObj [(''success'', JBool False),
            (''error'', JStr (error_message e))])))"
    using bigquery_other_failures [of request k v benv e fire signal] by blast
qed

theorem failures_reported_in_envelope_witness:
  \<open>createQueryJob rejecting_bq_env (JStr ''SELECT 1'') False = Inl (JsError ''ApiError'' ''Syntax error'')
   \<and> fst (bigquery_CallTool rejecting_bq_env None
        \<lparr>name = ''bigquery_execute_query'', arguments = Some (JObj [(''query'', JStr ''SELECT 1'')])\<rparr>
        live_signal) =
      Inr (text_result ''{"success":false,"error":"Syntax error"}'')
   \<and> fetch failing_fetch_env (JStr ''https://example.com'') = Inl (JsError ''TypeError'' ''fetch failed'')
   \<and> fst (fetch_CallTool failing_fetch_env
        \<lparr>name = ''fetch'', arguments = Some (JObj [(''url'', JStr ''https://example.com'')])\<rparr>) =
      Inr (text_result ''{"error":"Failed to fetch https://example.com: TypeError: fetch failed"}'')
   \<and> fst (slack_try sample_slack_env \<lparr>name = ''nope'', arguments = Some (JObj [])\<rparr>) =
      Inl (JsError ''Error'' ''Unknown tool: nope'')
   \<and> fst (slack_CallTool sample_slack_env \<lparr>name = ''nope'', arguments = Some (JObj [])\<rparr>) =
      Inr (text_result ''{"error":"Unknown tool: nope"}'')\<close>
proof -
  let ?b = "\<lparr>name = ''bigquery_execute_query'',
             arguments = Some (JObj [(''query'', JStr ''SELECT 1'')])\<rparr>"
  let ?f = "\<lparr>name = ''fetch'', arguments = Some (JObj [(''url'', JStr ''https://example.com'')])\<rparr>"
  let ?s = "\<lparr>name = ''nope'', arguments = Some (JObj [])\<rparr>"
  have c: "createQueryJob rejecting_bq_env (JStr ''SELECT 1'') False =
             Inl (JsError ''ApiError'' ''Syntax error'')"
    by (simp add: rejecting_bq_env_def)
  have bq: "name ?b = ''bigquery_execute_query'' \<and> opt_prop (arguments ?b) ''query'' = Some (JStr ''SELECT 1'')
      \<and> truthy (Some (JStr ''SELECT 1''))"
    by simp
  have d: "fetch failing_fetch_env (JStr ''https://example.com'') =
             Inl (JsError ''TypeError'' ''fetch failed'')"
    by (simp add: failing_fetch_env_def)
  have fq: "name ?f = ''fetch'' \<and> opt_prop (arguments ?f) ''url'' = Some (JStr ''https://example.com'')
      \<and> truthy (Some (JStr ''https://example.com''))"
    by simp
  have u: "fst (slack_try sample_slack_env ?s) = Inl (JsError ''Error'' ''Unknown tool: nope'')"
    by (simp add: slack_try_def)
  have t1: \<open>JSON_stringify (JObj [(''success'', JBool False),
            (''error'', JStr (if is_AbortError (JsError ''ApiError'' ''Syntax error'')
                              then ''Request was cancelled''
                              else error_message (JsError ''ApiError'' ''Syntax error'')))]) =
      ''{"success":false,"error":"Syntax error"}''\<close>
    by (simp add: quote_def quote_char_def)
  have t2: \<open>JSON_stringify (JObj [(''error'',
            JStr (''Failed to fetch '' @ js_String (JStr ''https://example.com'') @ '': ''
                  @ error_toString (JsError ''TypeError'' ''fetch failed'')))]) =
      ''{"error":"Failed to fetch https://example.com: TypeError: fetch failed"}''\<close>
    by (simp add: quote_def quote_char_def)
  have t3: \<open>JSON_stringify (JObj [(''error'',
            JStr (error_message (JsError ''Error'' ''Unknown tool: nope'')))]) =
      ''{"error":"Unknown tool: nope"}''\<close>
    by (simp add: quote_def quote_char_def)
  from failures_reported_in_envelope [where benv = rejecting_bq_env and fire = None
      and request = ?b and signal = live_signal and e = "JsError ''ApiError'' ''Syntax error''"
      and v = "JStr ''SELECT 1''"] c bq
  have 1: "fst (bigquery_CallTool rejecting_bq_env None ?b live_signal) =
      Inr (text_result (JSON_stringify (JObj [(''success'', JBool False),
            (''error'', JStr (if is_AbortError (JsError ''ApiError'' ''Syntax error'')
                              then ''Request was cancelled''
                              else error_message (JsError ''ApiError'' ''Syntax error'')))])))"
    by blast
  from failures_reported_in_envelope [where request = ?f and fenv = failing_fetch_env
      and e = "JsError ''TypeError'' ''fetch failed''" and v = "JStr ''https://example.com''"] d fq
  have 2: "fst (fetch_CallTool failing_fetch_env ?f) =
      Inr (text_result (JSON_stringify (JObj [(''error'',
            JStr (''Failed to fetch '' @ js_String (JStr ''https://example.com'') @ '': ''
                  @ error_toString (JsError ''TypeError'' ''fetch failed'')))])))"
    by blast
  from failures_reported_in_envelope [where request = ?s and senv = sample_slack_env
      and e = "JsError ''Error'' ''Unknown tool: nope''"] u
  have 3: "fst (slack_CallTool sample_slack_env ?s) =
      Inr (text_result (JSON_stringify (JObj [(''error'',
            JStr (error_message (JsError ''Error'' ''Unknown tool: nope'')))])))"
    by blast
  from c d u 1 2 3 show ?thesis
    unfolding t1 t2 t3 by blast
qed

text \<open>
  A rejected query: the text carries the \<^verbatim>\<open>success\<close> member and is not
  \<^verbatim>\<open>{"error":"Syntax error"}\<close>.
\<close>

theorem upstream_failure_keeps_success_flag:
  \<open>fst (bigquery_CallTool rejecting_bq_env None
        \<lparr>name = ''bigquery_execute_query'', arguments = Some (JObj [(''query'', JStr ''SELECT 1'')])\<rparr>
        live_signal) =
      Inr (text_result ''{"success":false,"error":"Syntax error"}'')
   \<and> fst (bigquery_CallTool rejecting_bq_env None
        \<lparr>name = ''bigquery_execute_query'', arguments = Some (JObj [(''query'', JStr ''SELECT 1'')])\<rparr>
        live_signal) \<noteq>
      Inr (text_result ''{"error":"Syntax error"}'')\<close>
  by (simp add: bigquery_CallTool_def bigquery_try_def executeQuery_def rejecting_bq_env_def
      executeQuery_catch_def failure_response_def text_result_def quote_def quote_char_def)

subsection \<open>Prompt retrieval\<close>

text \<open>
  C4, as the code has it. For every prompt name, a prompt-retrieval request whose arguments
  carry a truthy \<^verbatim>\<open>url\<close> returns one user message: the fetched content, or, when the fetch
  fails, the text of the error. When \<^verbatim>\<open>url\<close> is absent or empty the handler logs and
  throws \<^verbatim>\<open>Error("URL is required")\<close> to the protocol layer, without fetching.
\<close>

theorem prompt_retrieval:
  "(opt_prop (params_arguments request) ''url'' = Some u \<and> truthy (Some u) \<longrightarrow>
      (case fst (fetchUrl fenv u) of
         Inr c \<Rightarrow>
           fst (fetch_GetPrompt fenv request) =
             Inr \<lparr>result_description = ''Contents of '' @ js_String u,
                  messages = [user_message c]\<rparr>
       | Inl e \<Rightarrow>
           fst (fetch_GetPrompt fenv request) =
             Inr \<lparr>result_description = ''Failed to fetch '' @ js_String u,
                  messages = [user_message (error_message e)]\<rparr>))
   \<and> (\<not> truthy (opt_prop (params_arguments request) ''url'') \<longrightarrow>
      fetch_GetPrompt fenv request =
        (Inl (JsError ''Error'' ''URL is required''),
         [Log Stderr ''Received GetPromptRequest:'', Log Stderr ''Error handling prompt:'']))"
  by (auto simp add: fetch_GetPrompt_def Let_def split_beta split: sum.splits)

theorem prompt_retrieval_witness:
  "truthy (Some (JStr ''https://example.com''))
   \<and> fst (fetch_GetPrompt sample_fetch_env
        \<lparr>params_name = ''any'', params_arguments = Some (JObj [(''url'', JStr ''https://example.com'')])\<rparr>) =
      Inr \<lparr>result_description = ''Contents of https://example.com'',
           messages = [user_message ''<html>ok</html>'']\<rparr>
   \<and> fst (fetch_GetPrompt failing_fetch_env
        \<lparr>params_name = ''any'', params_arguments = Some (JObj [(''url'', JStr ''https://example.com'')])\<rparr>) =
      Inr \<lparr>result_description = ''Failed to fetch https://example.com'',
           messages = [user_message ''Failed to fetch https://example.com: TypeError: fetch failed'']\<rparr>
   \<and> fetch_GetPrompt sample_fetch_env \<lparr>params_name = ''fetch'', params_arguments = Some (JObj [])\<rparr> =
      (Inl (JsError ''Error'' ''URL is required''),
       [Log Stderr ''Received GetPromptRequest:'', Log Stderr ''Error handling prompt:''])"
proof -
  let ?r = "\<lparr>params_name = ''any'',
             params_arguments = Some (JObj [(''url'', JStr ''https://example.com'')])\<rparr>"
  let ?n = "\<lparr>params_name = ''fetch'', params_arguments = Some (JObj [])\<rparr>"
  have h: "opt_prop (params_arguments ?r) ''url'' = Some (JStr ''https://example.com'')
      \<and> truthy (Some (JStr ''https://example.com''))"
    and n: "\<not> truthy (opt_prop (params_arguments ?n) ''url'')"
    by simp_all
  have ok: "fst (fetchUrl sample_fetch_env (JStr ''https://example.com'')) = Inr ''<html>ok</html>''"
    and down: "fst (fetchUrl failing_fetch_env (JStr ''https://example.com'')) =
      Inl (JsError ''Error'' ''Failed to fetch https://example.com: TypeError: fetch failed'')"
    by (simp_all add: fetchUrl_def fetchUrl_rethrow_def sample_fetch_env_def failing_fetch_env_def)
  from prompt_retrieval [where request = ?r and u = "JStr ''https://example.com''"
      and fenv = sample_fetch_env] h
  have 1: "fst (fetch_GetPrompt sample_fetch_env ?r) =
      Inr \<lparr>result_description = ''Contents of '' @ js_String (JStr ''https://example.com''),
           messages = [user_message ''<html>ok</html>'']\<rparr>"
    unfolding ok by simp
  from prompt_retrieval [where request = ?r and u = "JStr ''https://example.com''"
      and fenv = failing_fetch_env] h
  have 2: "fst (fetch_GetPrompt failing_fetch_env ?r) =
      Inr \<lparr>result_description = ''Failed to fetch '' @ js_String (JStr ''https://example.com''),
           messages = [user_message (error_message
             (JsError ''Error'' ''Failed to fetch https://example.com: TypeError: fetch failed''))]\<rparr>"
    unfolding down by simp
  from prompt_retrieval [where request = ?n and fenv = sample_fetch_env] n
  have 3: "fetch_GetPrompt sample_fetch_env ?n =
      (Inl (JsError ''Error'' ''URL is required''),
       [Log Stderr ''Received GetPromptRequest:'', Log Stderr ''Error handling prompt:''])"
    by blast
  from h 1 2 3 show ?thesis
    by simp
qed

text \<open>A prompt request without \<^verbatim>\<open>url\<close> makes the handler throw.\<close>

theorem prompt_without_url_throws:
  "fst (fetch_GetPrompt sample_fetch_env \<lparr>params_name = ''fetch'', params_arguments = Some (JObj [])\<rparr>) =
     Inl (JsError ''Error'' ''URL is required'')"
  by (simp add: fetch_GetPrompt_def)

subsection \<open>Start-up\<close>

lemma registers_tools: "setRequestHandlers [''tools''] [''tools/call'', ''tools/list''] = None"
  by (simp add: setRequestHandler_def required_capability_def)

lemma registers_prompts:
  "setRequestHandlers [''tools''] [''tools/call'', ''tools/list'', ''prompts/list'', ''prompts/get''] =
     Some (JsError ''Error'' ''Server does not support prompts (required for prompts/list)'')"
  by (simp add: setRequestHandler_def required_capability_def)




subsection \<open>The SSE endpoints\<close>

lemma serve_posts_without_session:
  "serve (map PostMessages reqs @ rest) None = serve rest None"
  by (induction reqs) (simp_all add: app_post_messages_def)

text \<open>
  C8. While no transport is stored, a request to \<^verbatim>\<open>POST /messages\<close> does nothing: nothing
  is handed to a transport, the state stays empty, and nothing is thrown. Nothing is kept
  of it either: the server behaves after any number of such requests as if they had never
  been made, also once a session is opened.
\<close>

theorem post_without_session_is_noop:
  "app_post_messages req None = (None, [])
   \<and> serve (map PostMessages reqs @ rest) None = serve rest None
   \<and> serve (map PostMessages reqs @ GetSse res # rest) None = serve (GetSse res # rest) None"
  by (simp add: app_post_messages_def serve_posts_without_session)

subsection \<open>Diagnostics and the protocol channel\<close>

lemma log_channels_append: "log_channels (xs @ ys) = log_channels xs @ log_channels ys"
  by (induction xs rule: log_channels.induct) simp_all

lemma onAbort_logs: "set (log_channels (onAbort env j)) \<subseteq> {Stderr}"
  by (simp add: onAbort_def split: option.splits)

lemma await_results_logs:
  "await_results env j fires signal = (s', evs) \<Longrightarrow> c \<in> set (log_channels evs) \<Longrightarrow> c = Stderr"
  using onAbort_logs [of env j]
  by (auto simp add: await_results_def log_channels_append split: option.splits prod.splits if_splits)

lemma executeQuery_logs: "set (log_channels (snd (snd (executeQuery env fire q signal)))) \<subseteq> {Stderr}"
  by (auto simp add: executeQuery_def Let_def split: sum.splits option.splits prod.splits
      dest: await_results_logs)

lemma dryRunQuery_logs: "log_channels (snd (dryRunQuery env q)) = []"
  by (simp add: dryRunQuery_def split: sum.splits)

lemma getJob_logs: "log_channels (snd (getJob env q)) = []"
  by (simp add: getJob_def split: sum.splits)

lemma cancelJob_logs: "log_channels (snd (cancelJob env q)) = []"
  by (simp add: cancelJob_def split: sum.splits option.splits)

lemma bigquery_try_logs: "set (log_channels (snd (bigquery_try env fire request signal))) \<subseteq> {Stderr}"
  using executeQuery_logs [of env fire "the (opt_prop (arguments request) ''query'')" "Some signal"]
  by (simp add: bigquery_try_def Let_def split_beta dryRunQuery_logs getJob_logs cancelJob_logs)

lemma bigquery_CallTool_logs:
  "set (log_channels (snd (bigquery_CallTool env fire request signal))) \<subseteq> {Stderr}"
  using bigquery_try_logs [of env fire request signal]
  by (simp add: bigquery_CallTool_def log_channels_append split_beta split: sum.splits)

lemma fetchUrl_logs: "log_channels (snd (fetchUrl env u)) = []"
  by (simp add: fetchUrl_def split: sum.splits)

lemma fetch_CallTool_logs: "set (log_channels (snd (fetch_CallTool env request))) \<subseteq> {Stderr}"
  by (simp add: fetch_CallTool_def fetch_try_def Let_def log_channels_append split_beta fetchUrl_logs
      split: sum.splits)

lemma fetch_GetPrompt_logs: "set (log_channels (snd (fetch_GetPrompt env request))) \<subseteq> {Stderr}"
  by (simp add: fetch_GetPrompt_def Let_def split_beta fetchUrl_logs split: sum.splits)

lemma slack_CallTool_logs: "set (log_channels (snd (slack_CallTool env request))) \<subseteq> {Stderr}"
  by (simp add: slack_CallTool_def slack_try_def getUserProfile_def Let_def log_channels_append
      split_beta split: sum.splits)

lemma stdio_bigquery_CallTool_logs:
  "set (log_channels (snd (stdio_bigquery_CallTool env request))) \<subseteq> {Stderr}"
proof -
  have "log_channels (snd (stdio_executeQuery env v)) = []" for v
    by (simp add: stdio_executeQuery_def split: sum.splits)
  then show ?thesis
    by (simp add: stdio_bigquery_CallTool_def stdio_bigquery_try_def Let_def log_channels_append
        split_beta dryRunQuery_logs split: sum.splits)
qed

lemma stdio_bigquery_main_logs: "Stdout \<notin> set (log_channels (stdio_bigquery_main parses env))"
  by (simp add: stdio_bigquery_main_def registers_tools main_catch_def
      del: setRequestHandlers.simps)

lemma main_logs:
  "protocol_channel argv \<notin> set (log_channels (bigquery_main parses env argv))"
  "protocol_channel argv \<notin> set (log_channels (slack_main env argv))"
  "protocol_channel argv \<notin> set (log_channels (snd (fetch_main env argv)))"
  "protocol_channel argv \<notin> set (log_channels (snd (fetch_tools_only_main env argv)))"
  by (simp_all add: bigquery_main_def slack_main_def fetch_main_def fetch_tools_only_main_def
      registers_tools registers_prompts main_catch_def start_transport_def protocol_channel_def
      del: setRequestHandlers.simps)

text \<open>
  C9. No diagnostic is written on the channel that carries the protocol messages. The
  handlers and the start-up code of every service log with \<^verbatim>\<open>console.error\<close>, on
  standard error; the one \<^verbatim>\<open>console.log\<close> is in the SSE branch of \<^verbatim>\<open>main\<close>, where the
  protocol runs over the HTTP event stream. In particular, without \<^verbatim>\<open>--sse\<close> the
  protocol channel is standard output and nothing is logged there; the stdio-only BigQuery
  server never logs on standard output.
\<close>

theorem diagnostics_off_protocol_channel:
  "protocol_channel argv \<notin> set (log_channels (bigquery_main parses env argv))
   \<and> protocol_channel argv \<notin> set (log_channels (slack_main env argv))
   \<and> protocol_channel argv \<notin> set (log_channels (snd (fetch_main env argv)))
   \<and> protocol_channel argv \<notin> set (log_channels (snd (fetch_tools_only_main env argv)))
   \<and> protocol_channel argv \<notin> set (log_channels (snd (bigquery_CallTool benv fire request signal)))
   \<and> protocol_channel argv \<notin> set (log_channels (snd (fetch_CallTool fenv request)))
   \<and> protocol_channel argv \<notin> set (log_channels (snd (slack_CallTool senv request)))
   \<and> protocol_channel argv \<notin> set (log_channels (snd (fetch_GetPrompt fenv prequest)))
   \<and> protocol_channel argv \<notin> set (log_channels (snd bigquery_ListTools))
   \<and> protocol_channel argv \<notin> set (log_channels (snd fetch_ListTools))
   \<and> protocol_channel argv \<notin> set (log_channels (snd fetch_ListPrompts))
   \<and> protocol_channel argv \<notin> set (log_channels (snd slack_ListTools))
   \<and> Stdout \<notin> set (log_channels (stdio_bigquery_main parses env))
   \<and> Stdout \<notin> set (log_channels (snd (stdio_bigquery_CallTool benv request)))
   \<and> Stdout \<notin> set (log_channels (snd stdio_bigquery_ListTools))
   \<and> (''--sse'' \<notin> set argv \<longrightarrow>
        protocol_channel argv = Stdout
        \<and> Stdout \<notin> set (log_channels (bigquery_main parses env argv))
        \<and> Stdout \<notin> set (log_channels (slack_main env argv))
        \<and> Stdout \<notin> set (log_channels (snd (fetch_main env argv)))
        \<and> Stdout \<notin> set (log_channels (snd (fetch_tools_only_main env argv)))
        \<and> Stdout \<notin> set (log_channels (snd (bigquery_CallTool benv fire request signal)))
        \<and> Stdout \<notin> set (log_channels (snd (fetch_CallTool fenv request)))
        \<and> Stdout \<notin> set (log_channels (snd (slack_CallTool senv request)))
        \<and> Stdout \<notin> set (log_channels (snd (fetch_GetPrompt fenv prequest))))"
proof -
  have p: "protocol_channel argv \<noteq> Stderr"
    by (simp add: protocol_channel_def)
  have off: "protocol_channel argv \<notin> set cs" if "set cs \<subseteq> {Stderr}" for cs
    using that p by auto
  have lists: "protocol_channel argv \<notin> set (log_channels (snd bigquery_ListTools))"
    "protocol_channel argv \<notin> set (log_channels (snd fetch_ListTools))"
    "protocol_channel argv \<notin> set (log_channels (snd fetch_ListPrompts))"
    "protocol_channel argv \<notin> set (log_channels (snd slack_ListTools))"
    using p
    by (simp_all add: bigquery_ListTools_def fetch_ListTools_def fetch_ListPrompts_def
        slack_ListTools_def)
  have stdio: "protocol_channel argv = Stdout" if "''--sse'' \<notin> set argv"
    using that by (simp add: protocol_channel_def)
  have only: "Stdout \<notin> set (log_channels (snd (stdio_bigquery_CallTool benv request)))"
    "Stdout \<notin> set (log_channels (snd stdio_bigquery_ListTools))"
    using stdio_bigquery_CallTool_logs [of benv request]
    by (auto simp add: stdio_bigquery_ListTools_def)
  show ?thesis
    using only stdio_bigquery_main_logs [of parses env] main_logs(1) [of argv parses env]
      main_logs(2) [of argv env] main_logs(3) [of argv env] main_logs(4) [of argv env] lists stdio
      off [OF bigquery_CallTool_logs [of benv fire request signal]]
      off [OF fetch_CallTool_logs [of fenv request]]
      off [OF slack_CallTool_logs [of senv request]]
      off [OF fetch_GetPrompt_logs [of fenv prequest]]
    by auto
qed

theorem diagnostics_off_protocol_channel_witness:
  "''--sse'' \<notin> set []
   \<and> Stdout \<notin> set (log_channels (bigquery_main (\<lambda>s. True) [''BIGQUERY_CREDENTIALS'' \<mapsto> ''{}''] []))
   \<and> Stdout \<notin> set (log_channels (snd (bigquery_CallTool sample_bq_env (Some WhileAwaitingResults)
        \<lparr>name = ''bigquery_execute_query'', arguments = Some (JObj [(''query'', JStr ''SELECT 1'')])\<rparr>
        live_signal)))
   \<and> HttpStream \<notin> set (log_channels (snd (fetch_main Map.empty [''--sse''])))
   \<and> HttpStream \<notin> set (log_channels (snd (fetch_tools_only_main Map.empty [''--sse''])))"
proof -
  have s: "''--sse'' \<notin> set []"
    by simp
  have h: "protocol_channel [''--sse''] = HttpStream"
    by (simp add: protocol_channel_def)
  from diagnostics_off_protocol_channel [where argv = "[]" and parses = "\<lambda>s. True"
      and env = "[''BIGQUERY_CREDENTIALS'' \<mapsto> ''{}'']" and benv = sample_bq_env
      and fire = "Some WhileAwaitingResults" and signal = live_signal
      and request = "\<lparr>name = ''bigquery_execute_query'',
        arguments = Some (JObj [(''query'', JStr ''SELECT 1'')])\<rparr>"] s
  have 1: "Stdout \<notin> set (log_channels (bigquery_main (\<lambda>s. True) [''BIGQUERY_CREDENTIALS'' \<mapsto> ''{}''] []))
   \<and> Stdout \<notin> set (log_channels (snd (bigquery_CallTool sample_bq_env (Some WhileAwaitingResults)
        \<lparr>name = ''bigquery_execute_query'', arguments = Some (JObj [(''query'', JStr ''SELECT 1'')])\<rparr>
        live_signal)))"
    by blast
  from diagnostics_off_protocol_channel [where argv = "[''--sse'']" and env = Map.empty]
  have 2: "HttpStream \<notin> set (log_channels (snd (fetch_main Map.empty [''--sse''])))
    \<and> HttpStream \<notin> set (log_channels (snd (fetch_tools_only_main Map.empty [''--sse''])))"
    unfolding h by blast
  from s 1 2 show ?thesis
    by blast
qed

end
